theory Spec2Isabelle
  imports Complex_Main "HOL-Library.AList" "HOL-Library.Sublist"
begin

section \<open>Python values\<close>

text \<open>
  Every profile, the problem and the device catalog are Python dictionaries holding
  JSON-like values. A dictionary is an association list in insertion order; lookups read
  the first binding of a key and an item assignment updates it in place or appends it,
  as \<^verbatim>\<open>d[k] = v\<close> does. Python floats are modelled by exact rationals: every float
  the agents compute comes from a few decimal literals, and no comparison in the code is
  decided within the rounding error of a double.
\<close>

datatype json =
    JNull
  | JBool bool
  | JInt int
  | JNum rat
  | JStr string
  | JArr "json list"
  | JObj "(string \<times> json) list"

type_synonym dict = "(string \<times> json) list"

text \<open>
  The exceptions the code can meet. \<open>ServiceError\<close> stands for any exception of the
  external client libraries (a transport, authentication or quota failure); it is never
  a \<open>JSONDecodeError\<close>.
\<close>

datatype exn =
    JSONDecodeError
  | TypeError
  | KeyError
  | AttributeError
  | IndexError
  | ValueError
  | ZeroDivisionError
  | ServiceError string

type_synonym 'a result = "exn + 'a"

text \<open>Sequencing: an exception ends the computation, a value goes on.\<close>

definition and_then :: "'a result \<Rightarrow> ('a \<Rightarrow> 'b result) \<Rightarrow> 'b result" where
  "and_then r f = (case r of Inl e \<Rightarrow> Inl e | Inr v \<Rightarrow> f v)"

text \<open>\<^verbatim>\<open>d.get(k, default)\<close>; \<^verbatim>\<open>d.get(k)\<close> is \<open>dict_get d k JNull\<close>.\<close>

definition dict_get :: "dict \<Rightarrow> string \<Rightarrow> json \<Rightarrow> json" where
  "dict_get d k dflt = (case map_of d k of None \<Rightarrow> dflt | Some v \<Rightarrow> v)"

text \<open>\<^verbatim>\<open>d[k]\<close> on a dictionary.\<close>

definition dict_item :: "dict \<Rightarrow> string \<Rightarrow> json result" where
  "dict_item d k = (case map_of d k of None \<Rightarrow> Inl KeyError | Some v \<Rightarrow> Inr v)"

text \<open>\<^verbatim>\<open>x.get(k, default)\<close> on any value: only a dictionary has the method.\<close>

fun attr_get :: "json \<Rightarrow> string \<Rightarrow> json \<Rightarrow> json result" where
  "attr_get (JObj d) k dflt = Inr (dict_get d k dflt)"
| "attr_get _ k dflt = Inl AttributeError"

text \<open>
  \<^verbatim>\<open>x[k] = v\<close> with a string key on the value \<^verbatim>\<open>json.loads\<close> returned: a list takes
  integer indices only, and no other value supports item assignment.
\<close>

fun set_item :: "json \<Rightarrow> string \<Rightarrow> json \<Rightarrow> dict result" where
  "set_item (JObj d) k v = Inr (AList.update k v d)"
| "set_item _ k v = Inl TypeError"

text \<open>Truth value of a Python value in a condition.\<close>

fun truthy :: "json \<Rightarrow> bool" where
  "truthy JNull = False"
| "truthy (JBool b) = b"
| "truthy (JInt i) = (i \<noteq> 0)"
| "truthy (JNum r) = (r \<noteq> 0)"
| "truthy (JStr s) = (s \<noteq> [])"
| "truthy (JArr xs) = (xs \<noteq> [])"
| "truthy (JObj d) = (d \<noteq> [])"

text \<open>\<^verbatim>\<open>len(x)\<close>: the number of keys of a dictionary, the length of a list or string.\<close>

fun py_len :: "json \<Rightarrow> int result" where
  "py_len (JObj d) = Inr (int (length (remdups (map fst d))))"
| "py_len (JArr xs) = Inr (int (length xs))"
| "py_len (JStr s) = Inr (int (length s))"
| "py_len _ = Inl TypeError"

text \<open>The numeric reading of a value: \<^verbatim>\<open>bool\<close> is a subclass of \<^verbatim>\<open>int\<close>.\<close>

fun num_of :: "json \<Rightarrow> rat option" where
  "num_of (JInt i) = Some (of_int i)"
| "num_of (JNum r) = Some r"
| "num_of (JBool b) = Some (if b then 1 else 0)"
| "num_of _ = None"

text \<open>\<^verbatim>\<open>x < n\<close> and \<^verbatim>\<open>x <= n\<close> against an integer literal.\<close>

definition py_lt :: "json \<Rightarrow> int \<Rightarrow> bool result" where
  "py_lt x n = (case num_of x of None \<Rightarrow> Inl TypeError | Some r \<Rightarrow> Inr (r < of_int n))"

definition py_le :: "json \<Rightarrow> int \<Rightarrow> bool result" where
  "py_le x n = (case num_of x of None \<Rightarrow> Inl TypeError | Some r \<Rightarrow> Inr (r \<le> of_int n))"

text \<open>\<^verbatim>\<open>x * n\<close> with an integer literal: numbers multiply, sequences repeat.\<close>

fun py_mul :: "json \<Rightarrow> int \<Rightarrow> json result" where
  "py_mul (JInt i) n = Inr (JInt (i * n))"
| "py_mul (JNum r) n = Inr (JNum (r * of_int n))"
| "py_mul (JBool b) n = Inr (JInt ((if b then 1 else 0) * n))"
| "py_mul (JStr s) n = Inr (JStr (concat (replicate (nat n) s)))"
| "py_mul (JArr xs) n = Inr (JArr (concat (replicate (nat n) xs)))"
| "py_mul _ n = Inl TypeError"

text \<open>\<^verbatim>\<open>round(x, n)\<close> on a float: to the nearest multiple of \<open>10 ^ - n\<close>, ties to even.\<close>

definition round_half_even :: "rat \<Rightarrow> int" where
  "round_half_even x =
     (let f = \<lfloor>x\<rfloor>; d = x - of_int f in
      if d < 1 / 2 then f else if 1 / 2 < d then f + 1 else if even f then f else f + 1)"

definition py_round :: "rat \<Rightarrow> nat \<Rightarrow> rat" where
  "py_round x n = of_int (round_half_even (x * 10 ^ n)) / 10 ^ n"

text \<open>\<^verbatim>\<open>a / b\<close> on floats.\<close>

definition py_div :: "rat \<Rightarrow> rat \<Rightarrow> rat result" where
  "py_div a b = (if b = 0 then Inl ZeroDivisionError else Inr (a / b))"

text \<open>
  Three library functions are parameters of the model: \<^verbatim>\<open>json.loads\<close> (a function
  \<open>loads\<close> from the text to the value, \<open>None\<close> for \<^verbatim>\<open>JSONDecodeError\<close>), the built-in
  \<^verbatim>\<open>str\<close> that an f-string applies to a value (\<open>str_of\<close>), and the message of an
  exception (\<open>exc_str\<close>).
\<close>

type_synonym loads = "string \<Rightarrow> json option"

type_synonym str_of = "json \<Rightarrow> string"

section \<open>Extracting the payload of a reply\<close>

text \<open>
  \<^verbatim>\<open>str.strip()\<close> removes the characters for which \<^verbatim>\<open>str.isspace\<close> holds; below
  code point 256 these are 9 to 13, 28 to 32, 133 and 160.
\<close>

definition is_space :: "char \<Rightarrow> bool" where
  "is_space c = (of_char c \<in> {9, 10, 11, 12, 13, 28, 29, 30, 31, 32, 133, 160 :: nat})"

definition strip :: "string \<Rightarrow> string" where
  "strip s = rev (dropWhile is_space (rev (dropWhile is_space s)))"

text \<open>
  \<^verbatim>\<open>s.split(sep)\<close> for a non-empty separator (both call sites pass a literal): the
  pieces between the non-overlapping occurrences of \<open>sep\<close>, found from the left.
\<close>

fun split_py :: "string \<Rightarrow> string \<Rightarrow> string list" where
  "split_py sep [] = [[]]"
| "split_py sep (c # cs) =
     (if prefix sep (c # cs) then [] # split_py sep (drop (length sep - 1) cs)
      else (case split_py sep cs of
              [] \<Rightarrow> [[c]]
            | p # ps \<Rightarrow> (c # p) # ps))"

definition fence :: string where
  "fence = ''```''"

definition fence_json :: string where
  "fence_json = ''```json''"

text \<open>
  The lines every agent runs between \<^verbatim>\<open>response.strip()\<close> and \<^verbatim>\<open>json.loads\<close>.
  \<^verbatim>\<open>split(m)[1]\<close> exists because the text starts with \<open>m\<close>, and \<^verbatim>\<open>split(m)[0]\<close>
  always exists; the \<open>None\<close> branches are the \<^verbatim>\<open>IndexError\<close> that cannot occur.
\<close>

definition second_then_first :: "string \<Rightarrow> string \<Rightarrow> string option" where
  "second_then_first m s =
     (case split_py m s of
        _ # x # _ \<Rightarrow> (case split_py fence x of y # _ \<Rightarrow> Some y | [] \<Rightarrow> None)
      | _ \<Rightarrow> None)"

definition strip_fences :: "string \<Rightarrow> string option" where
  "strip_fences response_clean =
     (if prefix fence_json response_clean then second_then_first fence_json response_clean
      else if prefix fence response_clean then second_then_first fence response_clean
      else Some response_clean)"

text \<open>
  From the reply of the reasoning client to the parsed value: \<^verbatim>\<open>strip\<close> needs a string,
  and a payload that is not JSON raises \<^verbatim>\<open>JSONDecodeError\<close>.
\<close>

definition parse_reply :: "loads \<Rightarrow> json \<Rightarrow> json result" where
  "parse_reply loads response =
     (case response of
        JStr text \<Rightarrow>
          (case strip_fences (strip text) of
             None \<Rightarrow> Inl IndexError
           | Some payload \<Rightarrow>
               (case loads payload of
                  None \<Rightarrow> Inl JSONDecodeError
                | Some v \<Rightarrow> Inr v))
      | _ \<Rightarrow> Inl AttributeError)"

section \<open>The reasoning client (bedrock_service.py)\<close>

text \<open>\<^verbatim>\<open>k in x\<close> for a string \<open>k\<close>: a key of a dictionary, an element of a list, a substring.\<close>

fun py_in :: "string \<Rightarrow> json \<Rightarrow> bool result" where
  "py_in k (JObj d) = Inr (k \<in> fst ` set d)"
| "py_in k (JArr xs) = Inr (JStr k \<in> set xs)"
| "py_in k (JStr s) = Inr (sublist k s)"
| "py_in k _ = Inl TypeError"

text \<open>\<^verbatim>\<open>x[k]\<close> with a string key on any value.\<close>

fun get_item :: "json \<Rightarrow> string \<Rightarrow> json result" where
  "get_item (JObj d) k = dict_item d k"
| "get_item _ k = Inl TypeError"

text \<open>
  \<^verbatim>\<open>invoke_with_system_prompt\<close>. Its argument is the outcome of \<^verbatim>\<open>client.invoke_model\<close>:
  the exception it raised or the body it returned. The handler of the method prints
  and re-raises, so every exception of the body leaves the method unchanged.
\<close>

definition content_text :: "json \<Rightarrow> json result" where
  "content_text content =
     (case content of
        JArr (first # _) \<Rightarrow> attr_get first ''text'' (JStr [])
      | _ \<Rightarrow> Inr (JStr []))"

definition invoke_with_system_prompt :: "loads \<Rightarrow> string result \<Rightarrow> json result" where
  "invoke_with_system_prompt loads invoke_model =
     and_then invoke_model (\<lambda>body.
     and_then (case loads body of None \<Rightarrow> Inl JSONDecodeError | Some v \<Rightarrow> Inr v) (\<lambda>response_body.
     and_then (py_in ''output'' response_body) (\<lambda>has_output.
       if \<not> has_output then Inr (JStr [])
       else
         and_then (get_item response_body ''output'') (\<lambda>output.
         and_then (py_in ''message'' output) (\<lambda>has_message.
           if \<not> has_message then Inr (JStr [])
           else
             and_then (get_item output ''message'') (\<lambda>message.
             and_then (get_item message ''content'') content_text))))))"

section \<open>The device catalog (braket_service.py)\<close>

text \<open>Iterating over a value in a \<^verbatim>\<open>for\<close> loop.\<close>

fun py_iter :: "json \<Rightarrow> json list result" where
  "py_iter (JArr xs) = Inr xs"
| "py_iter (JObj d) = Inr (map JStr (remdups (map fst d)))"
| "py_iter (JStr s) = Inr (map (\<lambda>c. JStr [c]) s)"
| "py_iter _ = Inl TypeError"

definition device_entry :: "json \<Rightarrow> json result" where
  "device_entry device =
     and_then (get_item device ''deviceArn'') (\<lambda>arn.
     and_then (get_item device ''deviceName'') (\<lambda>name.
     and_then (get_item device ''deviceType'') (\<lambda>type.
     and_then (get_item device ''deviceStatus'') (\<lambda>status.
     and_then (attr_get device ''providerName'' (JStr ''AWS'')) (\<lambda>provider.
       Inr (JObj [(''arn'', arn), (''name'', name), (''type'', type),
                  (''status'', status), (''provider'', provider)]))))))"

fun device_entries :: "json list \<Rightarrow> json list result" where
  "device_entries [] = Inr []"
| "device_entries (device # rest) =
     and_then (device_entry device) (\<lambda>entry.
     and_then (device_entries rest) (\<lambda>entries. Inr (entry # entries)))"

definition default_catalog :: dict where
  "default_catalog =
     [(''devices'',
        JArr [JObj [(''arn'', JStr ''arn:aws:braket:::device/quantum-simulator/amazon/sv1''),
                    (''name'', JStr ''SV1''),
                    (''type'', JStr ''SIMULATOR''),
                    (''status'', JStr ''ONLINE''),
                    (''provider'', JStr ''Amazon Braket'')]]),
      (''count'', JInt 1),
      (''note'', JStr ''Showing default simulator - API call failed'')]"

text \<open>
  The body of the \<^verbatim>\<open>try\<close> of \<^verbatim>\<open>get_available_devices\<close>, from the outcome of
  \<^verbatim>\<open>braket_client.search_devices\<close>, and the method itself: \<^verbatim>\<open>except Exception\<close>
  turns every failure of the body into the default catalog.
\<close>

definition list_devices :: "json result \<Rightarrow> dict result" where
  "list_devices search_devices =
     and_then search_devices (\<lambda>response.
     and_then (attr_get response ''devices'' (JArr [])) (\<lambda>found.
     and_then (py_iter found) (\<lambda>items.
     and_then (device_entries items) (\<lambda>devices.
       Inr [(''devices'', JArr devices), (''count'', JInt (int (length devices)))]))))"

definition get_available_devices :: "json result \<Rightarrow> dict" where
  "get_available_devices search_devices =
     (case list_devices search_devices of
        Inl e \<Rightarrow> default_catalog
      | Inr catalog \<Rightarrow> catalog)"

section \<open>The complexity agent (complexity_agent.py)\<close>

text \<open>
  Each agent's method runs its \<^verbatim>\<open>try\<close> body on the reply of the reasoning client and
  handles \<^verbatim>\<open>json.JSONDecodeError\<close> only: any other exception leaves the method. The
  prompt is built from \<^verbatim>\<open>get\<close> lookups and \<^verbatim>\<open>json.dumps\<close> of JSON values, which do
  not fail, and it reaches the model only through the client, whose reply is an argument
  here.
\<close>

definition fallback_analysis :: "dict \<Rightarrow> dict result" where
  "fallback_analysis problem =
     (let params = dict_get problem ''parameters'' (JObj []) in
      and_then (attr_get params ''num_molecules'' (JInt 10)) (\<lambda>molecules.
      and_then (attr_get params ''num_assets'' molecules) (\<lambda>size.
      and_then (py_lt size 50) (\<lambda>below.
      and_then (py_len (dict_get problem ''constraints'' (JObj []))) (\<lambda>n.
        Inr [(''agent'', JStr ''Complexity Analyzer''),
             (''complexity_class'', JStr ''NP-Hard''),
             (''time_complexity'', JStr ''O(2^n)''),
             (''space_complexity'', JStr ''O(n)''),
             (''problem_size'', JStr (if below then ''medium'' else ''large'')),
             (''variable_count'', size),
             (''constraint_count'', JInt n),
             (''is_combinatorial'', JBool True),
             (''scalability'', JStr ''poor''),
             (''quantum_advantage_potential'', JStr ''medium''),
             (''reasoning'', JStr ''Heuristic analysis based on problem size''),
             (''confidence'', JNum (6 / 10))])))))"

definition analyze_body :: "loads \<Rightarrow> json result \<Rightarrow> dict result" where
  "analyze_body loads reply =
     and_then reply (\<lambda>response.
     and_then (parse_reply loads response) (\<lambda>analysis.
       set_item analysis ''agent'' (JStr ''Complexity Analyzer'')))"

definition analyze :: "loads \<Rightarrow> json result \<Rightarrow> dict \<Rightarrow> dict result" where
  "analyze loads reply problem =
     (case analyze_body loads reply of
        Inl JSONDecodeError \<Rightarrow> fallback_analysis problem
      | r \<Rightarrow> r)"

section \<open>The cost agent (cost_agent.py)\<close>

definition pricing_ec2 :: "(string \<times> rat) list" where
  "pricing_ec2 = [(''small'', 96 / 1000), (''medium'', 768 / 1000), (''large'', 3072 / 1000)]"

definition pricing_braket :: "(string \<times> rat) list" where
  "pricing_braket =
     [(''simulator_sv1'', 75 / 1000), (''simulator_dm1'', 75 / 1000), (''simulator_tn1'', 275 / 1000)]"

definition compute_hours_table :: "(string \<times> rat) list" where
  "compute_hours_table = [(''small'', 1 / 2), (''medium'', 2), (''large'', 8)]"

text \<open>
  \<^verbatim>\<open>table[key]\<close> on a dictionary literal with string keys: a list or a dictionary is
  not hashable, and any other value that is not a key is a \<^verbatim>\<open>KeyError\<close>.
\<close>

fun table_item :: "(string \<times> rat) list \<Rightarrow> json \<Rightarrow> (string \<times> rat) result" where
  "table_item t (JStr k) = (case map_of t k of None \<Rightarrow> Inl KeyError | Some v \<Rightarrow> Inr (k, v))"
| "table_item t (JArr xs) = Inl TypeError"
| "table_item t (JObj d) = Inl TypeError"
| "table_item t _ = Inl KeyError"

definition fallback_cost_estimate :: "dict \<Rightarrow> dict result" where
  "fallback_cost_estimate complexity_analysis =
     (let problem_size = dict_get complexity_analysis ''problem_size'' (JStr ''medium'') in
      and_then (table_item compute_hours_table problem_size) (\<lambda>(size_name, compute_hours).
      and_then (table_item pricing_ec2 problem_size) (\<lambda>(_, hourly_rate).
      and_then (table_item pricing_braket (JStr ''simulator_sv1'')) (\<lambda>(_, per_minute_rate).
        let classical_cost = compute_hours * hourly_rate;
            quantum_minutes = compute_hours * 60 / 3;
            quantum_cost = quantum_minutes * per_minute_rate;
            savings = classical_cost - quantum_cost
        in
        and_then (py_div savings classical_cost) (\<lambda>ratio.
          Inr [(''agent'', JStr ''Cost Estimator''),
               (''classical_cost'',
                  JObj [(''compute_hours'', JNum compute_hours),
                        (''hourly_rate'', JNum hourly_rate),
                        (''total_cost'', JNum (py_round classical_cost 2)),
                        (''instance_type'', JStr (''EC2 '' @ size_name))]),
               (''quantum_cost'',
                  JObj [(''runtime_minutes'', JNum (py_round quantum_minutes 2)),
                        (''per_minute_rate'', JNum per_minute_rate),
                        (''total_cost'', JNum (py_round quantum_cost 2)),
                        (''device_type'', JStr ''AWS Braket SV1'')]),
               (''roi_analysis'',
                  JObj [(''cost_savings'', JNum (py_round savings 2)),
                        (''savings_percentage'', JNum (py_round (ratio * 100) 1)),
                        (''breakeven_runs'', JInt 1),
                        (''recommendation'',
                           JStr (if 0 < savings then ''quantum'' else ''classical''))]),
               (''reasoning'', JStr ''Heuristic cost calculation based on problem size''),
               (''confidence'', JNum (7 / 10))])))))"

definition estimate_costs_body :: "loads \<Rightarrow> json result \<Rightarrow> dict result" where
  "estimate_costs_body loads reply =
     and_then reply (\<lambda>response.
     and_then (parse_reply loads response) (\<lambda>cost_analysis.
       set_item cost_analysis ''agent'' (JStr ''Cost Estimator'')))"

definition estimate_costs :: "loads \<Rightarrow> json result \<Rightarrow> dict \<Rightarrow> dict \<Rightarrow> dict result" where
  "estimate_costs loads reply problem complexity_analysis =
     (case estimate_costs_body loads reply of
        Inl JSONDecodeError \<Rightarrow> fallback_cost_estimate complexity_analysis
      | r \<Rightarrow> r)"

section \<open>The feasibility agent (quantum_agent.py)\<close>

definition fallback_feasibility :: "dict \<Rightarrow> dict \<Rightarrow> dict result" where
  "fallback_feasibility complexity_analysis devices =
     (let num_vars = dict_get complexity_analysis ''variable_count'' (JInt 10) in
      and_then (py_le num_vars 34) (\<lambda>is_feasible.
      and_then (py_mul num_vars 10) (\<lambda>circuit_depth.
      and_then (py_mul num_vars 50) (\<lambda>gate_count.
        Inr [(''agent'', JStr ''Quantum Feasibility''),
             (''algorithm_recommendation'', JStr ''QAOA''),
             (''qubit_requirements'', num_vars),
             (''circuit_depth'', circuit_depth),
             (''gate_count'', gate_count),
             (''is_feasible'', JBool is_feasible),
             (''hardware_availability'', JStr ''simulator''),
             (''limitations'',
                JArr [JStr ''Limited to 34 qubits on simulator'',
                      JStr ''No noise modeling in ideal simulation'']),
             (''advantages'',
                JArr [JStr ''Potential speedup for combinatorial problems'',
                      JStr ''Scalable to larger problems'']),
             (''reasoning'', JStr ''Heuristic assessment based on qubit requirements''),
             (''confidence'', JNum (7 / 10)),
             (''available_devices'', JObj devices)]))))"

definition assess_feasibility_body :: "loads \<Rightarrow> json result \<Rightarrow> dict \<Rightarrow> dict result" where
  "assess_feasibility_body loads reply devices =
     and_then reply (\<lambda>response.
     and_then (parse_reply loads response) (\<lambda>feasibility.
     and_then (set_item feasibility ''agent'' (JStr ''Quantum Feasibility'')) (\<lambda>tagged.
       Inr (AList.update ''available_devices'' (JObj devices) tagged))))"

definition assess_feasibility ::
  "loads \<Rightarrow> json result \<Rightarrow> json result \<Rightarrow> dict \<Rightarrow> dict \<Rightarrow> dict result" where
  "assess_feasibility loads search_devices reply problem complexity_analysis =
     (let devices = get_available_devices search_devices in
      case assess_feasibility_body loads reply devices of
        Inl JSONDecodeError \<Rightarrow> fallback_feasibility complexity_analysis devices
      | r \<Rightarrow> r)"

section \<open>The decision agent (decision_agent.py)\<close>

record votes =
  quantum :: int
  classical :: int

definition calculate_consensus :: "dict \<Rightarrow> dict \<Rightarrow> dict \<Rightarrow> dict result" where
  "calculate_consensus complexity cost feasibility =
     (let votes0 = \<lparr>quantum = 0, classical = 0\<rparr>;
          votes1 =
            (if dict_get complexity ''quantum_advantage_potential'' JNull = JStr ''high''
             then votes0\<lparr>quantum := quantum votes0 + 1\<rparr>
             else votes0)
      in
      and_then (attr_get (dict_get cost ''roi_analysis'' (JObj [])) ''recommendation'' JNull)
        (\<lambda>recommendation.
          let votes2 =
                (if recommendation = JStr ''quantum''
                 then votes1\<lparr>quantum := quantum votes1 + 1\<rparr>
                 else votes1\<lparr>classical := classical votes1 + 1\<rparr>);
              votes3 =
                (if truthy (dict_get feasibility ''is_feasible'' JNull)
                 then votes2\<lparr>quantum := quantum votes2 + 1\<rparr>
                 else votes2\<lparr>classical := classical votes2 + 1\<rparr>);
              total_votes = quantum votes3 + classical votes3
          in
          Inr [(''votes'',
                  JObj [(''quantum'', JInt (quantum votes3)),
                        (''classical'', JInt (classical votes3))]),
               (''agreement_score'',
                  if 0 < total_votes
                  then JNum (of_int (max (quantum votes3) (classical votes3)) / of_int total_votes)
                  else JInt 0),
               (''majority'',
                  JStr (if classical votes3 < quantum votes3 then ''quantum'' else ''classical''))]))"

text \<open>A value inside an f-string: a string stands for itself, anything else goes through \<^verbatim>\<open>str\<close>.\<close>

definition format_value :: "str_of \<Rightarrow> json \<Rightarrow> string" where
  "format_value str_of v = (case v of JStr s \<Rightarrow> s | _ \<Rightarrow> str_of v)"

definition fallback_decision :: "str_of \<Rightarrow> dict \<Rightarrow> dict \<Rightarrow> dict \<Rightarrow> dict result" where
  "fallback_decision str_of complexity cost feasibility =
     and_then (calculate_consensus complexity cost feasibility) (\<lambda>consensus.
     and_then (dict_item consensus ''majority'') (\<lambda>recommendation.
     and_then (dict_item consensus ''agreement_score'') (\<lambda>agreement_score.
     and_then (dict_item consensus ''votes'') (\<lambda>votes.
     and_then (attr_get (dict_get cost ''roi_analysis'' (JObj [])) ''recommendation'' JNull)
       (\<lambda>cost_recommendation.
         Inr [(''agent'', JStr ''Decision Maker''),
              (''final_recommendation'', recommendation),
              (''confidence'', agreement_score),
              (''primary_reasoning'',
                 JStr (''Based on majority vote from specialist agents: ''
                       @ format_value str_of votes)),
              (''supporting_factors'',
                 JArr [JStr (''Complexity agent: ''
                             @ format_value str_of
                                 (dict_get complexity ''quantum_advantage_potential'' JNull)
                             @ '' quantum potential''),
                       JStr (''Cost agent: '' @ format_value str_of cost_recommendation
                             @ '' recommended''),
                       JStr (''Feasibility: ''
                             @ (if truthy (dict_get feasibility ''is_feasible'' JNull)
                                then ''Feasible'' else ''Not feasible''))]),
              (''trade_offs'',
                 JObj [(''classical'',
                          JObj [(''pros'', JArr [JStr ''Reliable'', JStr ''Well-established'']),
                                (''cons'', JArr [JStr ''May be slower''])]),
                       (''quantum'',
                          JObj [(''pros'', JArr [JStr ''Potential speedup'']),
                                (''cons'', JArr [JStr ''Hardware constraints''])])]),
              (''actionable_next_steps'',
                 JArr [JStr (''Use '' @ format_value str_of recommendation @ '' algorithm''),
                       JStr ''Run comparative benchmarks'',
                       JStr ''Monitor performance metrics'']),
              (''agent_consensus'', JObj consensus)])))))"

definition make_decision_body ::
  "loads \<Rightarrow> json result \<Rightarrow> dict \<Rightarrow> dict \<Rightarrow> dict \<Rightarrow> dict result" where
  "make_decision_body loads reply complexity_analysis cost_analysis feasibility_analysis =
     and_then reply (\<lambda>response.
     and_then (parse_reply loads response) (\<lambda>decision.
     and_then (set_item decision ''agent'' (JStr ''Decision Maker'')) (\<lambda>tagged.
     and_then (calculate_consensus complexity_analysis cost_analysis feasibility_analysis)
       (\<lambda>consensus. Inr (AList.update ''agent_consensus'' (JObj consensus) tagged)))))"

definition make_decision ::
  "loads \<Rightarrow> str_of \<Rightarrow> json result \<Rightarrow> dict \<Rightarrow> dict \<Rightarrow> dict \<Rightarrow> dict \<Rightarrow> dict result" where
  "make_decision loads str_of reply problem complexity_analysis cost_analysis feasibility_analysis =
     (case make_decision_body loads reply complexity_analysis cost_analysis feasibility_analysis of
        Inl JSONDecodeError \<Rightarrow>
          fallback_decision str_of complexity_analysis cost_analysis feasibility_analysis
      | r \<Rightarrow> r)"

section \<open>The orchestrator (orchestrator.py) and the route (routes.py)\<close>

text \<open>
  What a run meets outside the code: the reply of the reasoning client to the call of each
  step, the outcome of the device search, and the clock at the start and at the end.
\<close>

record stubs =
  complexity_reply :: "json result"
  cost_reply :: "json result"
  feasibility_reply :: "json result"
  decision_reply :: "json result"
  device_search :: "json result"
  started :: rat
  finished :: rat

text \<open>
  The progress lines are printed through f-strings; of a \<^verbatim>\<open>print\<close> only the
  exception it can raise is modelled: the format \<^verbatim>\<open>:.2%\<close> needs a number, and
  \<^verbatim>\<open>.upper()\<close> a string.
\<close>

fun format_percent :: "json \<Rightarrow> unit result" where
  "format_percent (JInt i) = Inr ()"
| "format_percent (JNum r) = Inr ()"
| "format_percent (JBool b) = Inr ()"
| "format_percent (JStr s) = Inl ValueError"
| "format_percent _ = Inl TypeError"

fun py_upper :: "json \<Rightarrow> unit result" where
  "py_upper (JStr s) = Inr ()"
| "py_upper _ = Inl AttributeError"

definition analyze_problem :: "loads \<Rightarrow> str_of \<Rightarrow> stubs \<Rightarrow> dict \<Rightarrow> dict result" where
  "analyze_problem loads str_of env problem =
     and_then (analyze loads (complexity_reply env) problem) (\<lambda>complexity_analysis.
     and_then (format_percent (dict_get complexity_analysis ''confidence'' (JInt 0))) (\<lambda>_.
     and_then (estimate_costs loads (cost_reply env) problem complexity_analysis) (\<lambda>cost_analysis.
     and_then (attr_get (dict_get cost_analysis ''roi_analysis'' (JObj [])) ''recommendation'' JNull)
       (\<lambda>_.
     and_then (assess_feasibility loads (device_search env) (feasibility_reply env) problem
                 complexity_analysis) (\<lambda>feasibility_analysis.
     and_then (make_decision loads str_of (decision_reply env) problem complexity_analysis
                 cost_analysis feasibility_analysis) (\<lambda>final_decision.
     and_then (py_upper (dict_get final_decision ''final_recommendation'' JNull)) (\<lambda>_.
     and_then (format_percent (dict_get final_decision ''confidence'' (JInt 0))) (\<lambda>_.
       Inr [(''problem'', JObj problem),
            (''analysis'',
               JObj [(''complexity'', JObj complexity_analysis),
                     (''cost'', JObj cost_analysis),
                     (''feasibility'', JObj feasibility_analysis),
                     (''decision'', JObj final_decision)]),
            (''metadata'',
               JObj [(''total_analysis_time'', JNum (py_round (finished env - started env) 2)),
                     (''agents_involved'',
                        JArr [JStr ''Complexity Analyzer'', JStr ''Cost Estimator'',
                              JStr ''Quantum Feasibility'', JStr ''Decision Maker'']),
                     (''workflow'', JStr ''multi-agent-orchestration'')])]))))))))"

text \<open>The request model of schemas.py and its \<^verbatim>\<open>.dict()\<close>.\<close>

datatype problem_type = FINANCIAL | MOLECULAR

record optimization_problem =
  problem_type :: problem_type
  subtype :: string
  description :: string
  constraints :: "dict option"
  parameters :: dict

definition problem_dict :: "optimization_problem \<Rightarrow> dict" where
  "problem_dict p =
     [(''problem_type'',
         JStr (case problem_type p of FINANCIAL \<Rightarrow> ''financial'' | MOLECULAR \<Rightarrow> ''molecular'')),
      (''subtype'', JStr (subtype p)),
      (''description'', JStr (description p)),
      (''constraints'', (case constraints p of None \<Rightarrow> JNull | Some c \<Rightarrow> JObj c)),
      (''parameters'', JObj (parameters p))]"

datatype http_error = HTTPException int string

text \<open>\<^verbatim>\<open>multi_agent_analysis\<close>: every exception of the run becomes a response 500.\<close>

definition multi_agent_analysis ::
  "loads \<Rightarrow> str_of \<Rightarrow> (exn \<Rightarrow> string) \<Rightarrow> stubs \<Rightarrow> optimization_problem \<Rightarrow> http_error + dict" where
  "multi_agent_analysis loads str_of exc_str env request_problem =
     (case analyze_problem loads str_of env (problem_dict request_problem) of
        Inl e \<Rightarrow> Inl (HTTPException 500 (''Multi-agent analysis failed: '' @ exc_str e))
      | Inr report \<Rightarrow>
          Inr [(''success'', JBool True),
               (''data'', JObj report),
               (''message'', JStr ''Multi-agent analysis completed successfully'')])"

section \<open>Reading results and the inputs of the examples\<close>

text \<open>A chain of subscripts \<^verbatim>\<open>x[k1][k2]...\<close> on a result.\<close>

fun at_path :: "json \<Rightarrow> string list \<Rightarrow> json result" where
  "at_path v [] = Inr v"
| "at_path v (k # ks) = and_then (get_item v k) (\<lambda>w. at_path w ks)"

text \<open>
  What \<^verbatim>\<open>json.loads\<close> returns on three texts, and its \<^verbatim>\<open>JSONDecodeError\<close> on a
  text that is not JSON; the examples below use it on these three texts and on texts
  that are not JSON only.
\<close>

definition sample_loads :: loads where
  \<open>sample_loads =
     map_of [(''{}'', JObj []),
             (''[]'', JArr []),
             (''{"final_recommendation": "hybrid"}'',
                JObj [(''final_recommendation'', JStr ''hybrid'')])]\<close>

text \<open>
  What \<^verbatim>\<open>str\<close> returns on the one value that is not a string and that the examples
  format, the votes of the scenario; the examples apply it to nothing else.
\<close>

definition sample_str :: str_of where
  "sample_str v =
     (if v = JObj [(''quantum'', JInt 1), (''classical'', JInt 1)]
      then ''{'quantum': 1, 'classical': 1}'' else [])"

text \<open>
  The problem of the end-to-end scenario, and a run in which no reply of the reasoning
  client is JSON and the device search fails.
\<close>

definition scenario_problem :: dict where
  "scenario_problem =
     [(''problem_type'', JStr ''financial''),
      (''subtype'', JStr ''portfolio_optimization''),
      (''parameters'', JObj [(''num_assets'', JInt 50)]),
      (''constraints'', JObj [])]"

definition scenario_request :: optimization_problem where
  "scenario_request =
     \<lparr>problem_type = FINANCIAL,
      subtype = ''portfolio_optimization'',
      description = ''Optimize portfolio allocation for 50 assets'',
      constraints = Some [],
      parameters = [(''num_assets'', JInt 50)]\<rparr>"

definition scenario_stubs :: stubs where
  "scenario_stubs =
     \<lparr>complexity_reply = Inr (JStr ''not json''),
      cost_reply = Inr (JStr ''not json''),
      feasibility_reply = Inr (JStr ''not json''),
      decision_reply = Inr (JStr ''not json''),
      device_search = Inl (ServiceError ''unreachable''),
      started = 0,
      finished = 0\<rparr>"


section \<open>Properties\<close>

lemma split_py_nonempty: "split_py sep s \<noteq> []"
  by (induction s) (auto split: list.splits)

subsection \<open>The cost fallback\<close>

lemma hours_cases:
  "map_of compute_hours_table tier = Some hours \<Longrightarrow>
     (tier = ''small'' \<and> hours = 1 / 2) \<or> (tier = ''medium'' \<and> hours = 2) \<or> (tier = ''large'' \<and> hours = 8)"
  by (auto simp: compute_hours_table_def split: if_splits)

lemma rate_cases:
  "map_of pricing_ec2 tier = Some rate \<Longrightarrow>
     (tier = ''small'' \<and> rate = 96 / 1000) \<or> (tier = ''medium'' \<and> rate = 768 / 1000) \<or> (tier = ''large'' \<and> rate = 3072 / 1000)"
  by (auto simp: pricing_ec2_def split: if_splits)

lemma fallback_cost_estimate_value:
  assumes tier: "dict_get complexity_analysis ''problem_size'' (JStr ''medium'') = JStr tier"
    and hours: "map_of compute_hours_table tier = Some hours"
    and rate: "map_of pricing_ec2 tier = Some rate"
  shows "fallback_cost_estimate complexity_analysis =
     Inr [(''agent'', JStr ''Cost Estimator''),
          (''classical_cost'',
             JObj [(''compute_hours'', JNum hours),
                   (''hourly_rate'', JNum rate),
                   (''total_cost'', JNum (py_round (hours * rate) 2)),
                   (''instance_type'', JStr (''EC2 '' @ tier))]),
          (''quantum_cost'',
             JObj [(''runtime_minutes'', JNum (py_round (hours * 60 / 3) 2)),
                   (''per_minute_rate'', JNum (75 / 1000)),
                   (''total_cost'', JNum (py_round (hours * 60 / 3 * (75 / 1000)) 2)),
                   (''device_type'', JStr ''AWS Braket SV1'')]),
          (''roi_analysis'',
             JObj [(''cost_savings'', JNum (py_round (hours * rate - hours * 60 / 3 * (75 / 1000)) 2)),
                   (''savings_percentage'',
                      JNum (py_round ((hours * rate - hours * 60 / 3 * (75 / 1000)) / (hours * rate) * 100) 1)),
                   (''breakeven_runs'', JInt 1),
                   (''recommendation'',
                      JStr (if 0 < hours * rate - hours * 60 / 3 * (75 / 1000) then ''quantum'' else ''classical''))]),
          (''reasoning'', JStr ''Heuristic cost calculation based on problem size''),
          (''confidence'', JNum (7 / 10))]"
proof -
  have nz: "hours * rate \<noteq> 0"
    using hours_cases [OF hours] rate_cases [OF rate] by auto
  show ?thesis
    unfolding fallback_cost_estimate_def
    using nz by (simp add: Let_def and_then_def tier hours rate pricing_braket_def py_div_def)
qed

lemma savings_sign:
  assumes hours: "map_of compute_hours_table tier = Some hours"
    and rate: "map_of pricing_ec2 tier = Some rate"
  shows "(0 < hours * rate - hours * 60 / 3 * (75 / 1000)) = (tier = ''large'')"
  using hours_cases [OF hours] rate_cases [OF rate] by auto

lemma round_small_classical: "py_round (1 / 2 * (96 / 1000)) 2 = 5 / 100"
  by code_simp

lemma round_small_minutes: "py_round (1 / 2 * 60 / 3) 2 = 10"
  by code_simp

lemma round_small_quantum: "py_round (1 / 2 * 60 / 3 * (75 / 1000)) 2 = 75 / 100"
  by code_simp

lemma round_small_savings: "py_round (1 / 2 * (96 / 1000) - 1 / 2 * 60 / 3 * (75 / 1000)) 2 = - (70 / 100)"
  by code_simp

lemma round_small_percentage:
  "py_round ((1 / 2 * (96 / 1000) - 1 / 2 * 60 / 3 * (75 / 1000)) / (1 / 2 * (96 / 1000)) * 100) 1 = - (14625 / 10)"
  by code_simp

text \<open>
  Claim C3, as amended. For a complexity profile whose \<open>problem_size\<close> is a key of the
  table of compute hours (\<open>small\<close>, \<open>medium\<close>, \<open>large\<close>; \<open>medium\<close> when absent), the cost
  fallback returns the compute hours of the table and the hourly rate of the same tier,
  and reports the money and time amounts rounded: the classical total cost is
  hours times rate rounded to 2 decimals, the quantum runtime is hours * 60 / 3 rounded
  to 2 decimals, the quantum total cost is minutes times 0.075 rounded to 2 decimals,
  \<open>cost_savings\<close> is the unrounded difference rounded to 2 decimals; the recommendation is
  \<open>quantum\<close> when the unrounded savings are positive and \<open>classical\<close> otherwise;
  \<open>breakeven_runs\<close> is 1 and \<open>confidence\<close> is 0.7.
\<close>

theorem cost_fallback_fields:
  assumes tier: "dict_get complexity_analysis ''problem_size'' (JStr ''medium'') = JStr tier"
    and hours: "map_of compute_hours_table tier = Some hours"
    and rate: "map_of pricing_ec2 tier = Some rate"
  shows "fallback_cost_estimate complexity_analysis =
     Inr [(''agent'', JStr ''Cost Estimator''),
          (''classical_cost'',
             JObj [(''compute_hours'', JNum hours),
                   (''hourly_rate'', JNum rate),
                   (''total_cost'', JNum (py_round (hours * rate) 2)),
                   (''instance_type'', JStr (''EC2 '' @ tier))]),
          (''quantum_cost'',
             JObj [(''runtime_minutes'', JNum (py_round (hours * 60 / 3) 2)),
                   (''per_minute_rate'', JNum (75 / 1000)),
                   (''total_cost'', JNum (py_round (hours * 60 / 3 * (75 / 1000)) 2)),
                   (''device_type'', JStr ''AWS Braket SV1'')]),
          (''roi_analysis'',
             JObj [(''cost_savings'', JNum (py_round (hours * rate - hours * 60 / 3 * (75 / 1000)) 2)),
                   (''savings_percentage'',
                      JNum (py_round ((hours * rate - hours * 60 / 3 * (75 / 1000)) / (hours * rate) * 100) 1)),
                   (''breakeven_runs'', JInt 1),
                   (''recommendation'',
                      JStr (if 0 < hours * rate - hours * 60 / 3 * (75 / 1000) then ''quantum'' else ''classical''))]),
          (''reasoning'', JStr ''Heuristic cost calculation based on problem size''),
          (''confidence'', JNum (7 / 10))]"
  using assms by (rule fallback_cost_estimate_value)

theorem cost_fallback_fields_witness:
  "fallback_cost_estimate [(''problem_size'', JStr ''small'')] =
     Inr [(''agent'', JStr ''Cost Estimator''),
          (''classical_cost'',
             JObj [(''compute_hours'', JNum (1 / 2)),
                   (''hourly_rate'', JNum (96 / 1000)),
                   (''total_cost'', JNum (5 / 100)),
                   (''instance_type'', JStr ''EC2 small'')]),
          (''quantum_cost'',
             JObj [(''runtime_minutes'', JNum 10),
                   (''per_minute_rate'', JNum (75 / 1000)),
                   (''total_cost'', JNum (75 / 100)),
                   (''device_type'', JStr ''AWS Braket SV1'')]),
          (''roi_analysis'',
             JObj [(''cost_savings'', JNum (- (70 / 100))),
                   (''savings_percentage'', JNum (- (14625 / 10))),
                   (''breakeven_runs'', JInt 1),
                   (''recommendation'', JStr ''classical'')]),
          (''reasoning'', JStr ''Heuristic cost calculation based on problem size''),
          (''confidence'', JNum (7 / 10))]"
proof -
  have tier: "dict_get [(''problem_size'', JStr ''small'')] ''problem_size'' (JStr ''medium'') = JStr ''small''"
    by (simp add: dict_get_def)
  have hours: "map_of compute_hours_table ''small'' = Some (1 / 2)"
    by (simp add: compute_hours_table_def)
  have rate: "map_of pricing_ec2 ''small'' = Some (96 / 1000)"
    by (simp add: pricing_ec2_def)
  show ?thesis
    unfolding cost_fallback_fields [OF tier hours rate]
      round_small_classical round_small_minutes round_small_quantum round_small_savings
      round_small_percentage
    by simp
qed

text \<open>
  Claim C3 as stated fails on the returned profile: for \<open>small\<close> the classical total cost is
  0.05, not 0.5 * 0.096 = 0.048.
\<close>

theorem cost_total_not_product_counterexample:
  "and_then (fallback_cost_estimate [(''problem_size'', JStr ''small'')])
       (\<lambda>cost. at_path (JObj cost) [''classical_cost'', ''total_cost'']) = Inr (JNum (5 / 100))
   \<and> (1 / 2 :: rat) * (96 / 1000) \<noteq> 5 / 100"
proof -
  have tier: "dict_get [(''problem_size'', JStr ''small'')] ''problem_size'' (JStr ''medium'') = JStr ''small''"
    by (simp add: dict_get_def)
  have hours: "map_of compute_hours_table ''small'' = Some (1 / 2)"
    by (simp add: compute_hours_table_def)
  have rate: "map_of pricing_ec2 ''small'' = Some (96 / 1000)"
    by (simp add: pricing_ec2_def)
  show ?thesis
    unfolding fallback_cost_estimate_value [OF tier hours rate] round_small_classical
    by (simp add: and_then_def dict_item_def)
qed

text \<open>
  Claim C10. For a complexity profile whose \<open>problem_size\<close> is \<open>small\<close>, \<open>medium\<close> or
  \<open>large\<close> (\<open>medium\<close> when absent), the recommendation of the cost fallback is \<open>quantum\<close>
  exactly when \<open>problem_size\<close> is \<open>large\<close>: the savings are negative for \<open>small\<close> and
  \<open>medium\<close> and positive for \<open>large\<close>.
\<close>

theorem cost_fallback_recommendation:
  assumes tier: "dict_get complexity_analysis ''problem_size'' (JStr ''medium'') = JStr tier"
    and hours: "map_of compute_hours_table tier = Some hours"
    and rate: "map_of pricing_ec2 tier = Some rate"
  shows "and_then (fallback_cost_estimate complexity_analysis)
           (\<lambda>cost. at_path (JObj cost) [''roi_analysis'', ''recommendation''])
         = Inr (JStr (if tier = ''large'' then ''quantum'' else ''classical''))
       \<and> (0 < hours * rate - hours * 60 / 3 * (75 / 1000)) = (tier = ''large'')
       \<and> (1 / 2 :: rat) * (96 / 1000) - 10 * (75 / 1000) < 0
       \<and> (2 :: rat) * (768 / 1000) - 40 * (75 / 1000) < 0
       \<and> 0 < (8 :: rat) * (3072 / 1000) - 160 * (75 / 1000)"
  unfolding fallback_cost_estimate_value [OF tier hours rate] savings_sign [OF hours rate]
  by (simp add: and_then_def dict_item_def)

theorem cost_fallback_recommendation_witness:
  "and_then (fallback_cost_estimate [(''problem_size'', JStr ''large'')])
           (\<lambda>cost. at_path (JObj cost) [''roi_analysis'', ''recommendation''])
         = Inr (JStr ''quantum'')
   \<and> and_then (fallback_cost_estimate [])
           (\<lambda>cost. at_path (JObj cost) [''roi_analysis'', ''recommendation''])
         = Inr (JStr ''classical'')"
proof -
  have large: "dict_get [(''problem_size'', JStr ''large'')] ''problem_size'' (JStr ''medium'') = JStr ''large''"
    and absent: "dict_get [] ''problem_size'' (JStr ''medium'') = JStr ''medium''"
    by (simp_all add: dict_get_def)
  have hours: "map_of compute_hours_table ''large'' = Some 8" "map_of compute_hours_table ''medium'' = Some 2"
    by (simp_all add: compute_hours_table_def)
  have rate: "map_of pricing_ec2 ''large'' = Some (3072 / 1000)" "map_of pricing_ec2 ''medium'' = Some (768 / 1000)"
    by (simp_all add: pricing_ec2_def)
  show ?thesis
    using cost_fallback_recommendation [OF large hours(1) rate(1)]
      cost_fallback_recommendation [OF absent hours(2) rate(2)]
    by simp
qed

subsection \<open>Replies used in the examples\<close>

lemma strip_not_json: "strip ''not json'' = ''not json''"
  by (simp add: strip_def is_space_def)

lemma strip_braces: "strip ''{}'' = ''{}''"
  by (simp add: strip_def is_space_def)

lemma strip_brackets: "strip ''[]'' = ''[]''"
  by (simp add: strip_def is_space_def)

lemma parse_not_json: "parse_reply sample_loads (JStr ''not json'') = Inl JSONDecodeError"
  by (simp add: parse_reply_def strip_not_json strip_fences_def fence_def fence_json_def
      sample_loads_def)

lemma parse_braces: "parse_reply sample_loads (JStr ''{}'') = Inr (JObj [])"
  by (simp add: parse_reply_def strip_braces strip_fences_def fence_def fence_json_def
      sample_loads_def)

lemma parse_brackets: "parse_reply sample_loads (JStr ''[]'') = Inr (JArr [])"
  by (simp add: parse_reply_def strip_brackets strip_fences_def fence_def fence_json_def
      sample_loads_def)

lemma dict_get_update_same: "dict_get (AList.update k v d) k dflt = v"
  by (simp add: dict_get_def update_conv')


subsection \<open>The device catalog\<close>

lemma search_failure: "list_devices (Inl e) = Inl e"
  by (simp add: list_devices_def and_then_def)

text \<open>
  Claim C7. Whenever the query of the device catalog fails (the search raises, or its
  response cannot be read), the service returns the catalog of exactly one device, of
  type \<open>SIMULATOR\<close> and status \<open>ONLINE\<close>, with count 1; a search that raises is such a
  failure, and the service returns a catalog in every case.
\<close>

theorem catalog_failure_default:
  assumes "list_devices search_devices = Inl e"
  shows "get_available_devices search_devices =
           [(''devices'',
              JArr [JObj [(''arn'', JStr ''arn:aws:braket:::device/quantum-simulator/amazon/sv1''),
                          (''name'', JStr ''SV1''),
                          (''type'', JStr ''SIMULATOR''),
                          (''status'', JStr ''ONLINE''),
                          (''provider'', JStr ''Amazon Braket'')]]),
            (''count'', JInt 1),
            (''note'', JStr ''Showing default simulator - API call failed'')]
         \<and> list_devices (Inl raised) = Inl raised"
  using assms by (simp add: get_available_devices_def default_catalog_def search_failure)

theorem catalog_failure_default_witness:
  "get_available_devices (Inl (ServiceError ''unreachable'')) =
           [(''devices'',
              JArr [JObj [(''arn'', JStr ''arn:aws:braket:::device/quantum-simulator/amazon/sv1''),
                          (''name'', JStr ''SV1''),
                          (''type'', JStr ''SIMULATOR''),
                          (''status'', JStr ''ONLINE''),
                          (''provider'', JStr ''Amazon Braket'')]]),
            (''count'', JInt 1),
            (''note'', JStr ''Showing default simulator - API call failed'')]
   \<and> get_available_devices (Inr (JObj [(''devices'', JArr [JObj [(''deviceName'', JStr ''SV1'')]])])) =
           [(''devices'',
              JArr [JObj [(''arn'', JStr ''arn:aws:braket:::device/quantum-simulator/amazon/sv1''),
                          (''name'', JStr ''SV1''),
                          (''type'', JStr ''SIMULATOR''),
                          (''status'', JStr ''ONLINE''),
                          (''provider'', JStr ''Amazon Braket'')]]),
            (''count'', JInt 1),
            (''note'', JStr ''Showing default simulator - API call failed'')]"
proof -
  have raised: "list_devices (Inl (ServiceError ''unreachable'')) = Inl (ServiceError ''unreachable'')"
    by (rule search_failure)
  have unreadable:
    "list_devices (Inr (JObj [(''devices'', JArr [JObj [(''deviceName'', JStr ''SV1'')]])])) = Inl KeyError"
    by (simp add: list_devices_def and_then_def dict_get_def device_entry_def dict_item_def)
  show ?thesis
    using catalog_failure_default [OF raised] catalog_failure_default [OF unreadable] by simp
qed

subsection \<open>The feasibility fallback\<close>

lemma fallback_feasibility_int:
  assumes "dict_get complexity_analysis ''variable_count'' (JInt 10) = JInt n"
  shows "fallback_feasibility complexity_analysis devices =
     Inr [(''agent'', JStr ''Quantum Feasibility''),
          (''algorithm_recommendation'', JStr ''QAOA''),
          (''qubit_requirements'', JInt n),
          (''circuit_depth'', JInt (n * 10)),
          (''gate_count'', JInt (n * 50)),
          (''is_feasible'', JBool (n \<le> 34)),
          (''hardware_availability'', JStr ''simulator''),
          (''limitations'',
             JArr [JStr ''Limited to 34 qubits on simulator'',
                   JStr ''No noise modeling in ideal simulation'']),
          (''advantages'',
             JArr [JStr ''Potential speedup for combinatorial problems'',
                   JStr ''Scalable to larger problems'']),
          (''reasoning'', JStr ''Heuristic assessment based on qubit requirements''),
          (''confidence'', JNum (7 / 10)),
          (''available_devices'', JObj devices)]"
  using assms by (simp add: fallback_feasibility_def Let_def and_then_def py_le_def)

lemma assess_feasibility_unparsable:
  assumes "parse_reply loads response = Inl JSONDecodeError"
  shows "assess_feasibility loads search_devices (Inr response) problem complexity_analysis =
           fallback_feasibility complexity_analysis (get_available_devices search_devices)"
  using assms by (simp add: assess_feasibility_def assess_feasibility_body_def Let_def and_then_def)

lemma assess_feasibility_object:
  assumes "parse_reply loads response = Inr (JObj d)"
  shows "assess_feasibility loads search_devices (Inr response) problem complexity_analysis =
           Inr (AList.update ''available_devices'' (JObj (get_available_devices search_devices))
                  (AList.update ''agent'' (JStr ''Quantum Feasibility'') d))"
  using assms by (simp add: assess_feasibility_def assess_feasibility_body_def Let_def and_then_def)

lemma assess_feasibility_not_object:
  assumes "parse_reply loads response = Inr v" and "\<forall>d. v \<noteq> JObj d"
  shows "assess_feasibility loads search_devices (Inr response) problem complexity_analysis =
           Inl TypeError"
  using assms
  by (cases v)
    (simp_all add: assess_feasibility_def assess_feasibility_body_def Let_def and_then_def)

lemma assess_feasibility_parse_raised:
  assumes "parse_reply loads response = Inl e" and "e \<noteq> JSONDecodeError"
  shows "assess_feasibility loads search_devices (Inr response) problem complexity_analysis = Inl e"
  using assms
  by (cases e)
    (simp_all add: assess_feasibility_def assess_feasibility_body_def Let_def and_then_def)

text \<open>
  Claim C4, as amended. For a complexity profile whose \<open>variable_count\<close> is an integer or
  is absent (then 10), a reply that is not JSON makes the feasibility step return the
  fallback: \<open>qubit_requirements\<close> is that number, \<open>is_feasible\<close> holds exactly when it is at
  most 34, \<open>circuit_depth\<close> is ten times and \<open>gate_count\<close> fifty times that number, the
  algorithm is \<open>QAOA\<close>, the hardware \<open>simulator\<close>, the confidence 0.7, and
  \<open>available_devices\<close> is the catalog obtained at the start of the step. A reply that
  parses to a JSON object is returned as parsed with the tag of the step and the same
  catalog under \<open>available_devices\<close>, and with no field of the fallback. A reply that
  parses to another JSON value raises \<open>TypeError\<close>, and any other exception of the parsing
  leaves the step: in both cases nothing is returned and no catalog is attached.
\<close>

theorem feasibility_fallback_and_catalog:
  assumes "dict_get complexity_analysis ''variable_count'' (JInt 10) = JInt n"
  shows "(parse_reply loads response = Inl JSONDecodeError \<longrightarrow>
         assess_feasibility loads search_devices (Inr response) problem complexity_analysis =
           Inr [(''agent'', JStr ''Quantum Feasibility''),
                (''algorithm_recommendation'', JStr ''QAOA''),
                (''qubit_requirements'', JInt n),
                (''circuit_depth'', JInt (n * 10)),
                (''gate_count'', JInt (n * 50)),
                (''is_feasible'', JBool (n \<le> 34)),
                (''hardware_availability'', JStr ''simulator''),
                (''limitations'',
                   JArr [JStr ''Limited to 34 qubits on simulator'',
                         JStr ''No noise modeling in ideal simulation'']),
                (''advantages'',
                   JArr [JStr ''Potential speedup for combinatorial problems'',
                         JStr ''Scalable to larger problems'']),
                (''reasoning'', JStr ''Heuristic assessment based on qubit requirements''),
                (''confidence'', JNum (7 / 10)),
                (''available_devices'', JObj (get_available_devices search_devices))])
       \<and> (\<forall>d. parse_reply loads response = Inr (JObj d) \<longrightarrow>
            assess_feasibility loads search_devices (Inr response) problem complexity_analysis =
              Inr (AList.update ''available_devices'' (JObj (get_available_devices search_devices))
                     (AList.update ''agent'' (JStr ''Quantum Feasibility'') d)))
       \<and> (\<forall>v. parse_reply loads response = Inr v \<and> (\<forall>d. v \<noteq> JObj d) \<longrightarrow>
            assess_feasibility loads search_devices (Inr response) problem complexity_analysis =
              Inl TypeError)
       \<and> (\<forall>e. parse_reply loads response = Inl e \<and> e \<noteq> JSONDecodeError \<longrightarrow>
            assess_feasibility loads search_devices (Inr response) problem complexity_analysis =
              Inl e)
       \<and> (map_of complexity_analysis ''variable_count'' = None \<longrightarrow> n = 10)"
proof -
  have absent: "map_of complexity_analysis ''variable_count'' = None \<longrightarrow> n = 10"
    using assms by (auto simp: dict_get_def)
  show ?thesis
    using fallback_feasibility_int [OF assms] absent
    by (simp add: assess_feasibility_unparsable assess_feasibility_object
        assess_feasibility_not_object assess_feasibility_parse_raised)
qed

theorem feasibility_fallback_and_catalog_witness:
  "assess_feasibility sample_loads (Inl (ServiceError ''unreachable'')) (Inr (JStr ''not json''))
       scenario_problem [(''variable_count'', JInt 50)] =
           Inr [(''agent'', JStr ''Quantum Feasibility''),
                (''algorithm_recommendation'', JStr ''QAOA''),
                (''qubit_requirements'', JInt 50),
                (''circuit_depth'', JInt 500),
                (''gate_count'', JInt 2500),
                (''is_feasible'', JBool False),
                (''hardware_availability'', JStr ''simulator''),
                (''limitations'',
                   JArr [JStr ''Limited to 34 qubits on simulator'',
                         JStr ''No noise modeling in ideal simulation'']),
                (''advantages'',
                   JArr [JStr ''Potential speedup for combinatorial problems'',
                         JStr ''Scalable to larger problems'']),
                (''reasoning'', JStr ''Heuristic assessment based on qubit requirements''),
                (''confidence'', JNum (7 / 10)),
                (''available_devices'', JObj default_catalog)]
   \<and> assess_feasibility sample_loads (Inl (ServiceError ''unreachable'')) (Inr (JStr ''{}''))
        scenario_problem [(''variable_count'', JInt 50)] =
       Inr [(''agent'', JStr ''Quantum Feasibility''),
            (''available_devices'', JObj default_catalog)]
   \<and> assess_feasibility sample_loads (Inl (ServiceError ''unreachable'')) (Inr (JInt 7))
        scenario_problem [(''variable_count'', JInt 50)] = Inl AttributeError"
proof -
  have count: "dict_get [(''variable_count'', JInt 50)] ''variable_count'' (JInt 10) = JInt 50"
    by (simp add: dict_get_def)
  have catalog: "get_available_devices (Inl (ServiceError ''unreachable'')) = default_catalog"
    by (simp add: get_available_devices_def search_failure)
  have number: "parse_reply sample_loads (JInt 7) = Inl AttributeError"
    by (simp add: parse_reply_def)
  show ?thesis
    using feasibility_fallback_and_catalog [OF count, of sample_loads "JStr ''not json''"
        "Inl (ServiceError ''unreachable'')" scenario_problem]
      feasibility_fallback_and_catalog [OF count, of sample_loads "JStr ''{}''"
        "Inl (ServiceError ''unreachable'')" scenario_problem]
      feasibility_fallback_and_catalog [OF count, of sample_loads "JInt 7"
        "Inl (ServiceError ''unreachable'')" scenario_problem]
    by (simp add: catalog parse_not_json parse_braces number)
qed

text \<open>
  Claim C4 as stated fails on a reply that is JSON but no feasibility profile: on the
  reply \<^verbatim>\<open>[]\<close> the step raises \<open>TypeError\<close>, so it returns neither the fallback nor a
  catalog, and on the reply \<^verbatim>\<open>{}\<close> it returns the tag and the catalog only, with no
  field of the fallback.
\<close>

theorem feasibility_wrong_shape_counterexample:
  "assess_feasibility sample_loads (Inl (ServiceError ''unreachable'')) (Inr (JStr ''[]''))
        scenario_problem [(''variable_count'', JInt 50)] = Inl TypeError
   \<and> assess_feasibility sample_loads (Inl (ServiceError ''unreachable'')) (Inr (JStr ''{}''))
        scenario_problem [(''variable_count'', JInt 50)] =
       Inr [(''agent'', JStr ''Quantum Feasibility''),
            (''available_devices'',
               JObj (get_available_devices (Inl (ServiceError ''unreachable''))))]"
  by (simp add: assess_feasibility_def assess_feasibility_body_def Let_def and_then_def
      parse_brackets parse_braces)

subsection \<open>The steps on a reply\<close>

lemma analyze_unparsable:
  "parse_reply loads response = Inl JSONDecodeError \<Longrightarrow>
     analyze loads (Inr response) problem = fallback_analysis problem"
  by (simp add: analyze_def analyze_body_def and_then_def)

lemma analyze_object:
  "parse_reply loads response = Inr (JObj d) \<Longrightarrow>
     analyze loads (Inr response) problem = Inr (AList.update ''agent'' (JStr ''Complexity Analyzer'') d)"
  by (simp add: analyze_def analyze_body_def and_then_def)

lemma analyze_raised: "e \<noteq> JSONDecodeError \<Longrightarrow> analyze loads (Inl e) problem = Inl e"
  by (cases e) (simp_all add: analyze_def analyze_body_def and_then_def)

lemma estimate_costs_unparsable:
  "parse_reply loads response = Inl JSONDecodeError \<Longrightarrow>
     estimate_costs loads (Inr response) problem complexity_analysis =
       fallback_cost_estimate complexity_analysis"
  by (simp add: estimate_costs_def estimate_costs_body_def and_then_def)

lemma estimate_costs_object:
  "parse_reply loads response = Inr (JObj d) \<Longrightarrow>
     estimate_costs loads (Inr response) problem complexity_analysis =
       Inr (AList.update ''agent'' (JStr ''Cost Estimator'') d)"
  by (simp add: estimate_costs_def estimate_costs_body_def and_then_def)

lemma estimate_costs_raised:
  "e \<noteq> JSONDecodeError \<Longrightarrow> estimate_costs loads (Inl e) problem complexity_analysis = Inl e"
  by (cases e) (simp_all add: estimate_costs_def estimate_costs_body_def and_then_def)

lemma assess_feasibility_raised:
  "e \<noteq> JSONDecodeError \<Longrightarrow>
     assess_feasibility loads search_devices (Inl e) problem complexity_analysis = Inl e"
  by (cases e)
    (simp_all add: assess_feasibility_def assess_feasibility_body_def Let_def and_then_def)

lemma make_decision_unparsable:
  "parse_reply loads response = Inl JSONDecodeError \<Longrightarrow>
     make_decision loads str_of (Inr response) problem complexity_analysis cost_analysis
         feasibility_analysis =
       fallback_decision str_of complexity_analysis cost_analysis feasibility_analysis"
  by (simp add: make_decision_def make_decision_body_def and_then_def)

lemma make_decision_raised:
  "e \<noteq> JSONDecodeError \<Longrightarrow>
     make_decision loads str_of (Inl e) problem complexity_analysis cost_analysis
       feasibility_analysis = Inl e"
  by (cases e) (simp_all add: make_decision_def make_decision_body_def and_then_def)

subsection \<open>The consensus\<close>

lemma calculate_consensus_value:
  assumes roi: "dict_get cost ''roi_analysis'' (JObj []) = JObj roi"
  shows "calculate_consensus complexity cost feasibility =
     (let q = (if dict_get complexity ''quantum_advantage_potential'' JNull = JStr ''high'' then 1 else 0)
              + (if dict_get roi ''recommendation'' JNull = JStr ''quantum'' then 1 else 0)
              + (if truthy (dict_get feasibility ''is_feasible'' JNull) then 1 else 0);
          c = (if dict_get roi ''recommendation'' JNull = JStr ''quantum'' then 0 else 1)
              + (if truthy (dict_get feasibility ''is_feasible'' JNull) then 0 else 1)
      in Inr [(''votes'', JObj [(''quantum'', JInt q), (''classical'', JInt c)]),
              (''agreement_score'',
                 if q + c = 0 then JInt 0 else JNum (of_int (max q c) / of_int (q + c))),
              (''majority'', JStr (if c < q then ''quantum'' else ''classical''))])"
  unfolding calculate_consensus_def
  by (simp add: Let_def and_then_def roi)

lemma make_decision_object:
  assumes "parse_reply loads response = Inr (JObj d)"
    and "calculate_consensus complexity_analysis cost_analysis feasibility_analysis = Inr consensus"
  shows "make_decision loads str_of (Inr response) problem complexity_analysis cost_analysis
           feasibility_analysis =
         Inr (AList.update ''agent_consensus'' (JObj consensus)
                (AList.update ''agent'' (JStr ''Decision Maker'') d))"
  using assms by (simp add: make_decision_def make_decision_body_def and_then_def)

lemma fallback_decision_consensus:
  assumes "calculate_consensus complexity cost feasibility =
             Inr [(''votes'', v), (''agreement_score'', a), (''majority'', m)]"
  shows "and_then (fallback_decision str_of complexity cost feasibility)
           (\<lambda>decision. at_path (JObj decision) [''agent_consensus'']) =
         Inr (JObj [(''votes'', v), (''agreement_score'', a), (''majority'', m)])
       \<and> and_then (fallback_decision str_of complexity cost feasibility)
           (\<lambda>decision. at_path (JObj decision) [''final_recommendation'']) = Inr m
       \<and> and_then (fallback_decision str_of complexity cost feasibility)
           (\<lambda>decision. at_path (JObj decision) [''confidence'']) = Inr a"
proof -
  have "\<exists>r. attr_get (dict_get cost ''roi_analysis'' (JObj [])) ''recommendation'' JNull = Inr r"
    using assms by (auto simp: calculate_consensus_def Let_def and_then_def split: sum.splits)
  then obtain r where "attr_get (dict_get cost ''roi_analysis'' (JObj [])) ''recommendation'' JNull = Inr r" ..
  then show ?thesis
    using assms by (simp add: fallback_decision_def and_then_def dict_item_def)
qed

text \<open>
  Claim C1. For profiles whose \<open>roi_analysis\<close> is an object (or absent), the consensus
  starts both counters at 0, adds a quantum vote when the complexity profile's
  \<open>quantum_advantage_potential\<close> is \<open>high\<close> (and nothing otherwise), a quantum vote when
  the cost recommendation is \<open>quantum\<close> and a classical vote otherwise, a quantum vote when
  \<open>is_feasible\<close> is true and a classical vote otherwise; \<open>agreement_score\<close> is the larger
  count over the total (0 for a total of 0), and \<open>majority\<close> is \<open>quantum\<close> exactly when the
  quantum count is the larger, a tie giving \<open>classical\<close>. The decision step attaches this
  consensus to a parsed decision and builds its fallback decision from it.
\<close>

theorem consensus_procedure:
  assumes roi: "dict_get cost ''roi_analysis'' (JObj []) = JObj roi"
  shows
    "(let q = (if dict_get complexity ''quantum_advantage_potential'' JNull = JStr ''high'' then 1 else 0)
              + (if dict_get roi ''recommendation'' JNull = JStr ''quantum'' then 1 else 0)
              + (if truthy (dict_get feasibility ''is_feasible'' JNull) then 1 else 0);
          c = (if dict_get roi ''recommendation'' JNull = JStr ''quantum'' then 0 else 1)
              + (if truthy (dict_get feasibility ''is_feasible'' JNull) then 0 else 1);
          score = (if q + c = 0 then JInt 0 else JNum (of_int (max q c) / of_int (q + c)));
          majority = JStr (if c < q then ''quantum'' else ''classical'');
          consensus = [(''votes'', JObj [(''quantum'', JInt q), (''classical'', JInt c)]),
                       (''agreement_score'', score),
                       (''majority'', majority)]
      in calculate_consensus complexity cost feasibility = Inr consensus
       \<and> (parse_reply loads parsed = Inr (JObj d) \<longrightarrow>
            make_decision loads str_of (Inr parsed) problem complexity cost feasibility =
              Inr (AList.update ''agent_consensus'' (JObj consensus)
                     (AList.update ''agent'' (JStr ''Decision Maker'') d)))
       \<and> (parse_reply loads unparsable = Inl JSONDecodeError \<longrightarrow>
            and_then (make_decision loads str_of (Inr unparsable) problem complexity cost feasibility)
              (\<lambda>decision. at_path (JObj decision) [''agent_consensus'']) = Inr (JObj consensus)
          \<and> and_then (make_decision loads str_of (Inr unparsable) problem complexity cost feasibility)
              (\<lambda>decision. at_path (JObj decision) [''final_recommendation'']) = Inr majority
          \<and> and_then (make_decision loads str_of (Inr unparsable) problem complexity cost feasibility)
              (\<lambda>decision. at_path (JObj decision) [''confidence'']) = Inr score))"
proof -
  note consensus_eq = calculate_consensus_value [OF roi, of complexity feasibility, unfolded Let_def]
  show ?thesis
    unfolding Let_def
    using consensus_eq fallback_decision_consensus [OF consensus_eq, of str_of]
    by (simp add: make_decision_object make_decision_unparsable)
qed

theorem consensus_procedure_witness:
  "calculate_consensus [(''quantum_advantage_potential'', JStr ''medium'')]
       [(''roi_analysis'', JObj [(''recommendation'', JStr ''quantum'')])]
       [(''is_feasible'', JBool False)] =
     Inr [(''votes'', JObj [(''quantum'', JInt 1), (''classical'', JInt 1)]),
          (''agreement_score'', JNum (1 / 2)),
          (''majority'', JStr ''classical'')]
   \<and> make_decision sample_loads sample_str (Inr (JStr ''{}'')) scenario_problem
       [(''quantum_advantage_potential'', JStr ''medium'')]
       [(''roi_analysis'', JObj [(''recommendation'', JStr ''quantum'')])]
       [(''is_feasible'', JBool False)] =
     Inr [(''agent'', JStr ''Decision Maker''),
          (''agent_consensus'',
             JObj [(''votes'', JObj [(''quantum'', JInt 1), (''classical'', JInt 1)]),
                   (''agreement_score'', JNum (1 / 2)),
                   (''majority'', JStr ''classical'')])]
   \<and> and_then (make_decision sample_loads sample_str (Inr (JStr ''not json'')) scenario_problem
         [(''quantum_advantage_potential'', JStr ''medium'')]
         [(''roi_analysis'', JObj [(''recommendation'', JStr ''quantum'')])]
         [(''is_feasible'', JBool False)])
       (\<lambda>decision. at_path (JObj decision) [''agent_consensus'']) =
     Inr (JObj [(''votes'', JObj [(''quantum'', JInt 1), (''classical'', JInt 1)]),
                (''agreement_score'', JNum (1 / 2)),
                (''majority'', JStr ''classical'')])"
proof -
  have roi: "dict_get [(''roi_analysis'', JObj [(''recommendation'', JStr ''quantum'')])]
               ''roi_analysis'' (JObj []) = JObj [(''recommendation'', JStr ''quantum'')]"
    by (simp add: dict_get_def)
  show ?thesis
    using consensus_procedure [OF roi, of "[(''quantum_advantage_potential'', JStr ''medium'')]"
        "[(''is_feasible'', JBool False)]" sample_loads "JStr ''{}''" "[]" sample_str
        scenario_problem "JStr ''not json''"]
    by (simp add: Let_def dict_get_def parse_braces parse_not_json)
qed

subsection \<open>The complexity fallback\<close>

lemma fallback_analysis_value:
  assumes params: "dict_get problem ''parameters'' (JObj []) = JObj params"
    and number:
      "num_of (dict_get params ''num_assets'' (dict_get params ''num_molecules'' (JInt 10))) = Some r"
    and cons: "dict_get problem ''constraints'' (JObj []) = JObj cs"
  shows "fallback_analysis problem =
     Inr [(''agent'', JStr ''Complexity Analyzer''),
          (''complexity_class'', JStr ''NP-Hard''),
          (''time_complexity'', JStr ''O(2^n)''),
          (''space_complexity'', JStr ''O(n)''),
          (''problem_size'', JStr (if r < 50 then ''medium'' else ''large'')),
          (''variable_count'',
             dict_get params ''num_assets'' (dict_get params ''num_molecules'' (JInt 10))),
          (''constraint_count'', JInt (int (length (remdups (map fst cs))))),
          (''is_combinatorial'', JBool True),
          (''scalability'', JStr ''poor''),
          (''quantum_advantage_potential'', JStr ''medium''),
          (''reasoning'', JStr ''Heuristic analysis based on problem size''),
          (''confidence'', JNum (6 / 10))]"
  using assms by (simp add: fallback_analysis_def Let_def and_then_def py_lt_def)

text \<open>
  Claim C2, as amended. For a problem whose parameters are a mapping, whose size parameter
  (\<open>num_assets\<close> if present, else \<open>num_molecules\<close>, else 10) is a number and whose
  constraints are a mapping, a reply that is not JSON makes the complexity step return
  the fallback profile: that size as \<open>variable_count\<close>, \<open>problem_size\<close> \<open>medium\<close> below 50 and
  \<open>large\<close> otherwise, \<open>complexity_class\<close> \<open>NP-Hard\<close>, \<open>constraint_count\<close> the number of keys of
  the constraints, \<open>confidence\<close> 0.6. A reply that parses to a JSON object is returned as
  parsed, with the tag of the step added and no check of its fields.
\<close>

theorem complexity_fallback_on_non_json:
  assumes params: "dict_get problem ''parameters'' (JObj []) = JObj params"
    and number:
      "num_of (dict_get params ''num_assets'' (dict_get params ''num_molecules'' (JInt 10))) = Some r"
    and cons: "dict_get problem ''constraints'' (JObj []) = JObj cs"
  shows
    "(parse_reply loads unparsable = Inl JSONDecodeError \<longrightarrow>
        analyze loads (Inr unparsable) problem =
          Inr [(''agent'', JStr ''Complexity Analyzer''),
               (''complexity_class'', JStr ''NP-Hard''),
               (''time_complexity'', JStr ''O(2^n)''),
               (''space_complexity'', JStr ''O(n)''),
               (''problem_size'', JStr (if r < 50 then ''medium'' else ''large'')),
               (''variable_count'',
                  dict_get params ''num_assets'' (dict_get params ''num_molecules'' (JInt 10))),
               (''constraint_count'', JInt (int (length (remdups (map fst cs))))),
               (''is_combinatorial'', JBool True),
               (''scalability'', JStr ''poor''),
               (''quantum_advantage_potential'', JStr ''medium''),
               (''reasoning'', JStr ''Heuristic analysis based on problem size''),
               (''confidence'', JNum (6 / 10))])
     \<and> (parse_reply loads parsed = Inr (JObj d) \<longrightarrow>
          analyze loads (Inr parsed) problem =
            Inr (AList.update ''agent'' (JStr ''Complexity Analyzer'') d))"
  using fallback_analysis_value [OF assms]
  by (simp add: analyze_unparsable analyze_object)

lemma scenario_parameters:
  "dict_get scenario_problem ''parameters'' (JObj []) = JObj [(''num_assets'', JInt 50)]"
  "num_of (dict_get [(''num_assets'', JInt 50)] ''num_assets''
             (dict_get [(''num_assets'', JInt 50)] ''num_molecules'' (JInt 10))) = Some 50"
  "dict_get scenario_problem ''constraints'' (JObj []) = JObj []"
  by (simp_all add: scenario_problem_def dict_get_def)

theorem complexity_fallback_on_non_json_witness:
  "analyze sample_loads (Inr (JStr ''not json'')) scenario_problem =
          Inr [(''agent'', JStr ''Complexity Analyzer''),
               (''complexity_class'', JStr ''NP-Hard''),
               (''time_complexity'', JStr ''O(2^n)''),
               (''space_complexity'', JStr ''O(n)''),
               (''problem_size'', JStr ''large''),
               (''variable_count'', JInt 50),
               (''constraint_count'', JInt 0),
               (''is_combinatorial'', JBool True),
               (''scalability'', JStr ''poor''),
               (''quantum_advantage_potential'', JStr ''medium''),
               (''reasoning'', JStr ''Heuristic analysis based on problem size''),
               (''confidence'', JNum (6 / 10))]
   \<and> analyze sample_loads (Inr (JStr ''{}'')) scenario_problem =
       Inr [(''agent'', JStr ''Complexity Analyzer'')]"
  using complexity_fallback_on_non_json [OF scenario_parameters, of sample_loads
      "JStr ''not json''" "JStr ''{}''" "[]"]
  by (simp add: parse_not_json parse_braces dict_get_def)

text \<open>
  Claim C2 as stated fails on valid JSON that misses the required fields: the reply
  \<^verbatim>\<open>{}\<close> is returned with the tag of the step only, and has no \<open>confidence\<close>.
\<close>

theorem complexity_missing_fields_counterexample:
  "analyze sample_loads (Inr (JStr ''{}'')) scenario_problem =
       Inr [(''agent'', JStr ''Complexity Analyzer'')]
   \<and> and_then (analyze sample_loads (Inr (JStr ''{}'')) scenario_problem)
       (\<lambda>analysis. at_path (JObj analysis) [''confidence'']) = Inl KeyError"
  by (simp add: analyze_object [OF parse_braces] and_then_def dict_item_def)

subsection \<open>Failures of the reasoning call\<close>

lemma invoke_raised: "invoke_with_system_prompt loads (Inl e) = Inl e"
  by (simp add: invoke_with_system_prompt_def and_then_def)

lemma analyze_problem_first_failure:
  "analyze loads (complexity_reply env) problem = Inl e \<Longrightarrow>
     analyze_problem loads str_of env problem = Inl e"
  by (simp add: analyze_problem_def and_then_def)

lemma analyze_problem_raised:
  assumes "e \<noteq> JSONDecodeError"
    and "complexity_reply env = Inl e \<or> cost_reply env = Inl e
         \<or> feasibility_reply env = Inl e \<or> decision_reply env = Inl e"
  shows "isl (analyze_problem loads str_of env problem)"
  using assms
  by (auto simp: analyze_problem_def and_then_def analyze_raised estimate_costs_raised
      assess_feasibility_raised make_decision_raised split: sum.splits)

lemma multi_agent_analysis_failure:
  "analyze_problem loads str_of env (problem_dict request) = Inl e \<Longrightarrow>
     multi_agent_analysis loads str_of exc_str env request =
       Inl (HTTPException 500 (''Multi-agent analysis failed: '' @ exc_str e))"
  by (simp add: multi_agent_analysis_def)

lemma multi_agent_analysis_isl:
  "isl (analyze_problem loads str_of env (problem_dict request)) \<Longrightarrow>
     isl (multi_agent_analysis loads str_of exc_str env request)"
  by (cases "analyze_problem loads str_of env (problem_dict request)")
    (simp_all add: multi_agent_analysis_def)

lemma analyze_problem_later_failure:
  assumes "e \<noteq> JSONDecodeError"
    and "analyze loads (complexity_reply env) problem = Inr c"
    and "format_percent (dict_get c ''confidence'' (JInt 0)) = Inr ()"
  shows "cost_reply env = Inl e \<Longrightarrow> analyze_problem loads str_of env problem = Inl e"
    and "estimate_costs loads (cost_reply env) problem c = Inr k \<Longrightarrow>
         dict_get k ''roi_analysis'' (JObj []) = JObj roi \<Longrightarrow>
         feasibility_reply env = Inl e \<Longrightarrow>
         analyze_problem loads str_of env problem = Inl e"
    and "estimate_costs loads (cost_reply env) problem c = Inr k \<Longrightarrow>
         dict_get k ''roi_analysis'' (JObj []) = JObj roi \<Longrightarrow>
         assess_feasibility loads (device_search env) (feasibility_reply env) problem c = Inr f \<Longrightarrow>
         decision_reply env = Inl e \<Longrightarrow>
         analyze_problem loads str_of env problem = Inl e"
  using assms
  by (simp_all add: analyze_problem_def and_then_def estimate_costs_raised
      assess_feasibility_raised make_decision_raised)

lemma multi_agent_analysis_500:
  assumes "isl (analyze_problem loads str_of env (problem_dict request))"
  shows "\<exists>raised. analyze_problem loads str_of env (problem_dict request) = Inl raised
           \<and> multi_agent_analysis loads str_of exc_str env request =
               Inl (HTTPException 500 (''Multi-agent analysis failed: '' @ exc_str raised))"
  using assms
  by (cases "analyze_problem loads str_of env (problem_dict request)")
    (simp_all add: multi_agent_analysis_def)

lemma tier_tables:
  assumes "tier = ''small'' \<or> tier = ''medium'' \<or> tier = ''large''"
  shows "map_of compute_hours_table tier \<noteq> None \<and> map_of pricing_ec2 tier \<noteq> None"
  using assms by (elim disjE) (simp_all add: compute_hours_table_def pricing_ec2_def)

lemma fallback_cost_estimate_returns:
  assumes "dict_get complexity_analysis ''problem_size'' (JStr ''medium'') = JStr tier"
    and "tier = ''small'' \<or> tier = ''medium'' \<or> tier = ''large''"
  shows "\<exists>profile. fallback_cost_estimate complexity_analysis = Inr profile"
proof -
  obtain hours rate where "map_of compute_hours_table tier = Some hours"
    and "map_of pricing_ec2 tier = Some rate"
    using tier_tables [OF assms(2)] by blast
  then show ?thesis
    using fallback_cost_estimate_value [OF assms(1)] by blast
qed

lemma fallback_decision_returns:
  assumes "dict_get cost ''roi_analysis'' (JObj []) = JObj roi"
  shows "\<exists>profile. fallback_decision str_of complexity cost feasibility = Inr profile"
  unfolding fallback_decision_def calculate_consensus_value [OF assms]
  by (simp add: Let_def and_then_def dict_item_def assms)

text \<open>
  Claim C8, as amended. When the reasoning call raises an exception other than
  \<open>JSONDecodeError\<close>, the client re-raises it, no step runs its fallback, and every step
  returns the exception. The run then fails and the route answers with a response 500;
  the run fails with that very exception when the failing call is the first, or when the
  steps before it returned. A reply whose payload is not JSON is handled inside each
  step: the step returns what its fallback returns, which is a profile whenever the
  inputs of the fallback have the shape of the data model. A reply that parses to a JSON
  object is not checked: each step returns it as parsed, with its tags added.
\<close>

theorem reasoning_failure_propagates:
  assumes "e \<noteq> JSONDecodeError"
  shows
    "invoke_with_system_prompt loads (Inl e) = Inl e
     \<and> analyze loads (Inl e) problem = Inl e
     \<and> estimate_costs loads (Inl e) problem complexity_analysis = Inl e
     \<and> assess_feasibility loads search_devices (Inl e) problem complexity_analysis = Inl e
     \<and> make_decision loads str_of (Inl e) problem complexity_analysis cost_analysis
          feasibility_analysis = Inl e
     \<and> (complexity_reply env = Inl e \<or> cost_reply env = Inl e
          \<or> feasibility_reply env = Inl e \<or> decision_reply env = Inl e \<longrightarrow>
        isl (analyze_problem loads str_of env problem)
        \<and> (\<exists>raised.
              analyze_problem loads str_of env (problem_dict request) = Inl raised
              \<and> multi_agent_analysis loads str_of exc_str env request =
                  Inl (HTTPException 500 (''Multi-agent analysis failed: '' @ exc_str raised))))
     \<and> (complexity_reply env = Inl e \<longrightarrow>
        analyze_problem loads str_of env (problem_dict request) = Inl e
        \<and> multi_agent_analysis loads str_of exc_str env request =
            Inl (HTTPException 500 (''Multi-agent analysis failed: '' @ exc_str e)))
     \<and> (analyze loads (complexity_reply env) (problem_dict request) = Inr c
        \<and> format_percent (dict_get c ''confidence'' (JInt 0)) = Inr ()
        \<and> cost_reply env = Inl e \<longrightarrow>
        multi_agent_analysis loads str_of exc_str env request =
            Inl (HTTPException 500 (''Multi-agent analysis failed: '' @ exc_str e)))
     \<and> (analyze loads (complexity_reply env) (problem_dict request) = Inr c
        \<and> format_percent (dict_get c ''confidence'' (JInt 0)) = Inr ()
        \<and> estimate_costs loads (cost_reply env) (problem_dict request) c = Inr k
        \<and> dict_get k ''roi_analysis'' (JObj []) = JObj roi
        \<and> feasibility_reply env = Inl e \<longrightarrow>
        multi_agent_analysis loads str_of exc_str env request =
            Inl (HTTPException 500 (''Multi-agent analysis failed: '' @ exc_str e)))
     \<and> (analyze loads (complexity_reply env) (problem_dict request) = Inr c
        \<and> format_percent (dict_get c ''confidence'' (JInt 0)) = Inr ()
        \<and> estimate_costs loads (cost_reply env) (problem_dict request) c = Inr k
        \<and> dict_get k ''roi_analysis'' (JObj []) = JObj roi
        \<and> assess_feasibility loads (device_search env) (feasibility_reply env)
             (problem_dict request) c = Inr f
        \<and> decision_reply env = Inl e \<longrightarrow>
        multi_agent_analysis loads str_of exc_str env request =
            Inl (HTTPException 500 (''Multi-agent analysis failed: '' @ exc_str e)))
     \<and> (parse_reply loads unparsable = Inl JSONDecodeError \<longrightarrow>
        analyze loads (Inr unparsable) problem = fallback_analysis problem
        \<and> estimate_costs loads (Inr unparsable) problem complexity_analysis =
            fallback_cost_estimate complexity_analysis
        \<and> assess_feasibility loads search_devices (Inr unparsable) problem complexity_analysis =
            fallback_feasibility complexity_analysis (get_available_devices search_devices)
        \<and> make_decision loads str_of (Inr unparsable) problem complexity_analysis cost_analysis
            feasibility_analysis =
            fallback_decision str_of complexity_analysis cost_analysis feasibility_analysis
        \<and> (dict_get problem ''parameters'' (JObj []) = JObj params
            \<and> num_of (dict_get params ''num_assets'' (dict_get params ''num_molecules'' (JInt 10)))
                = Some size_parameter
            \<and> dict_get problem ''constraints'' (JObj []) = JObj cs \<longrightarrow>
            (\<exists>profile. analyze loads (Inr unparsable) problem = Inr profile))
        \<and> (dict_get complexity_analysis ''problem_size'' (JStr ''medium'') = JStr tier
            \<and> (tier = ''small'' \<or> tier = ''medium'' \<or> tier = ''large'') \<longrightarrow>
            (\<exists>profile. estimate_costs loads (Inr unparsable) problem complexity_analysis =
                         Inr profile))
        \<and> (dict_get complexity_analysis ''variable_count'' (JInt 10) = JInt n \<longrightarrow>
            (\<exists>profile. assess_feasibility loads search_devices (Inr unparsable) problem
                          complexity_analysis = Inr profile))
        \<and> (dict_get cost_analysis ''roi_analysis'' (JObj []) = JObj cost_roi \<longrightarrow>
            (\<exists>profile. make_decision loads str_of (Inr unparsable) problem complexity_analysis
                          cost_analysis feasibility_analysis = Inr profile)))
     \<and> (parse_reply loads parsed = Inr (JObj d) \<longrightarrow>
        analyze loads (Inr parsed) problem =
            Inr (AList.update ''agent'' (JStr ''Complexity Analyzer'') d)
        \<and> estimate_costs loads (Inr parsed) problem complexity_analysis =
            Inr (AList.update ''agent'' (JStr ''Cost Estimator'') d)
        \<and> assess_feasibility loads search_devices (Inr parsed) problem complexity_analysis =
            Inr (AList.update ''available_devices'' (JObj (get_available_devices search_devices))
                   (AList.update ''agent'' (JStr ''Quantum Feasibility'') d))
        \<and> (calculate_consensus complexity_analysis cost_analysis feasibility_analysis =
              Inr consensus \<longrightarrow>
            make_decision loads str_of (Inr parsed) problem complexity_analysis cost_analysis
              feasibility_analysis =
            Inr (AList.update ''agent_consensus'' (JObj consensus)
                   (AList.update ''agent'' (JStr ''Decision Maker'') d))))"
proof -
  have steps:
    "invoke_with_system_prompt loads (Inl e) = Inl e"
    "analyze loads (Inl e) problem = Inl e"
    "estimate_costs loads (Inl e) problem complexity_analysis = Inl e"
    "assess_feasibility loads search_devices (Inl e) problem complexity_analysis = Inl e"
    "make_decision loads str_of (Inl e) problem complexity_analysis cost_analysis
       feasibility_analysis = Inl e"
    using assms
    by (simp_all add: invoke_raised analyze_raised estimate_costs_raised
        assess_feasibility_raised make_decision_raised)
  have run: "isl (analyze_problem loads str_of env problem)
        \<and> (\<exists>raised.
              analyze_problem loads str_of env (problem_dict request) = Inl raised
              \<and> multi_agent_analysis loads str_of exc_str env request =
                  Inl (HTTPException 500 (''Multi-agent analysis failed: '' @ exc_str raised)))"
    if "complexity_reply env = Inl e \<or> cost_reply env = Inl e
          \<or> feasibility_reply env = Inl e \<or> decision_reply env = Inl e"
    using analyze_problem_raised [OF assms that] multi_agent_analysis_500 by blast
  have first: "analyze_problem loads str_of env (problem_dict request) = Inl e
        \<and> multi_agent_analysis loads str_of exc_str env request =
            Inl (HTTPException 500 (''Multi-agent analysis failed: '' @ exc_str e))"
    if "complexity_reply env = Inl e"
    using that assms
    by (simp add: analyze_problem_first_failure analyze_raised multi_agent_analysis_failure)
  have second: "multi_agent_analysis loads str_of exc_str env request =
            Inl (HTTPException 500 (''Multi-agent analysis failed: '' @ exc_str e))"
    if "analyze loads (complexity_reply env) (problem_dict request) = Inr c"
      and "format_percent (dict_get c ''confidence'' (JInt 0)) = Inr ()"
      and "cost_reply env = Inl e"
    using analyze_problem_later_failure(1) [OF assms that]
    by (rule multi_agent_analysis_failure)
  have third: "multi_agent_analysis loads str_of exc_str env request =
            Inl (HTTPException 500 (''Multi-agent analysis failed: '' @ exc_str e))"
    if "analyze loads (complexity_reply env) (problem_dict request) = Inr c"
      and "format_percent (dict_get c ''confidence'' (JInt 0)) = Inr ()"
      and "estimate_costs loads (cost_reply env) (problem_dict request) c = Inr k"
      and "dict_get k ''roi_analysis'' (JObj []) = JObj roi"
      and "feasibility_reply env = Inl e"
    using analyze_problem_later_failure(2) [OF assms that]
    by (rule multi_agent_analysis_failure)
  have fourth: "multi_agent_analysis loads str_of exc_str env request =
            Inl (HTTPException 500 (''Multi-agent analysis failed: '' @ exc_str e))"
    if "analyze loads (complexity_reply env) (problem_dict request) = Inr c"
      and "format_percent (dict_get c ''confidence'' (JInt 0)) = Inr ()"
      and "estimate_costs loads (cost_reply env) (problem_dict request) c = Inr k"
      and "dict_get k ''roi_analysis'' (JObj []) = JObj roi"
      and "assess_feasibility loads (device_search env) (feasibility_reply env)
             (problem_dict request) c = Inr f"
      and "decision_reply env = Inl e"
    using analyze_problem_later_failure(3) [OF assms that]
    by (rule multi_agent_analysis_failure)
  have local:
    "analyze loads (Inr unparsable) problem = fallback_analysis problem"
    "estimate_costs loads (Inr unparsable) problem complexity_analysis =
       fallback_cost_estimate complexity_analysis"
    "assess_feasibility loads search_devices (Inr unparsable) problem complexity_analysis =
       fallback_feasibility complexity_analysis (get_available_devices search_devices)"
    "make_decision loads str_of (Inr unparsable) problem complexity_analysis cost_analysis
       feasibility_analysis =
     fallback_decision str_of complexity_analysis cost_analysis feasibility_analysis"
    if "parse_reply loads unparsable = Inl JSONDecodeError"
    using that
    by (simp_all add: analyze_unparsable estimate_costs_unparsable
        assess_feasibility_unparsable make_decision_unparsable)
  have returned1: "\<exists>profile. fallback_analysis problem = Inr profile"
    if "dict_get problem ''parameters'' (JObj []) = JObj params"
      and "num_of (dict_get params ''num_assets'' (dict_get params ''num_molecules'' (JInt 10)))
            = Some size_parameter"
      and "dict_get problem ''constraints'' (JObj []) = JObj cs"
    using fallback_analysis_value [OF that] by blast
  have returned2: "\<exists>profile. fallback_cost_estimate complexity_analysis = Inr profile"
    if "dict_get complexity_analysis ''problem_size'' (JStr ''medium'') = JStr tier"
      and "tier = ''small'' \<or> tier = ''medium'' \<or> tier = ''large''"
    using that by (rule fallback_cost_estimate_returns)
  have returned3: "\<exists>profile. fallback_feasibility complexity_analysis
        (get_available_devices search_devices) = Inr profile"
    if "dict_get complexity_analysis ''variable_count'' (JInt 10) = JInt n"
    using fallback_feasibility_int [OF that] by blast
  have returned4: "\<exists>profile. fallback_decision str_of complexity_analysis cost_analysis
        feasibility_analysis = Inr profile"
    if "dict_get cost_analysis ''roi_analysis'' (JObj []) = JObj cost_roi"
    using that by (rule fallback_decision_returns)
  have object:
    "analyze loads (Inr parsed) problem =
       Inr (AList.update ''agent'' (JStr ''Complexity Analyzer'') d)"
    "estimate_costs loads (Inr parsed) problem complexity_analysis =
       Inr (AList.update ''agent'' (JStr ''Cost Estimator'') d)"
    "assess_feasibility loads search_devices (Inr parsed) problem complexity_analysis =
       Inr (AList.update ''available_devices'' (JObj (get_available_devices search_devices))
              (AList.update ''agent'' (JStr ''Quantum Feasibility'') d))"
    "calculate_consensus complexity_analysis cost_analysis feasibility_analysis =
              Inr consensus \<longrightarrow>
     make_decision loads str_of (Inr parsed) problem complexity_analysis cost_analysis
        feasibility_analysis =
     Inr (AList.update ''agent_consensus'' (JObj consensus)
            (AList.update ''agent'' (JStr ''Decision Maker'') d))"
    if "parse_reply loads parsed = Inr (JObj d)"
    using that
    by (simp_all add: analyze_object estimate_costs_object assess_feasibility_object
        make_decision_object)
  show ?thesis
    apply (intro conjI impI)
    using steps apply blast
    using steps apply blast
    using steps apply blast
    using steps apply blast
    using steps apply blast
    using run apply blast
    using run apply blast
    using first apply blast
    using first apply blast
    using second apply blast
    using third apply blast
    using fourth apply blast
    using local apply blast
    using local apply blast
    using local apply blast
    using local apply blast
    using local(1) returned1 apply (elim conjE, simp)
    using local(2) returned2 apply (elim conjE, simp)
    using local(3) returned3 apply simp
    using local(4) returned4 apply simp
    using object apply blast
    using object apply blast
    using object apply blast
    using object apply blast
    done
qed

theorem reasoning_failure_propagates_witness:
  "analyze sample_loads (Inl (ServiceError ''timeout'')) scenario_problem =
       Inl (ServiceError ''timeout'')
   \<and> make_decision sample_loads sample_str (Inl (ServiceError ''timeout'')) scenario_problem
       [] [] [] = Inl (ServiceError ''timeout'')
   \<and> (\<forall>exc_str.
        multi_agent_analysis sample_loads sample_str exc_str
          (scenario_stubs\<lparr>complexity_reply := Inl (ServiceError ''timeout'')\<rparr>) scenario_request =
        Inl (HTTPException 500
               (''Multi-agent analysis failed: '' @ exc_str (ServiceError ''timeout''))))
   \<and> (\<forall>exc_str. \<exists>raised.
        multi_agent_analysis sample_loads sample_str exc_str
          (scenario_stubs\<lparr>decision_reply := Inl (ServiceError ''timeout'')\<rparr>) scenario_request =
        Inl (HTTPException 500 (''Multi-agent analysis failed: '' @ exc_str raised)))
   \<and> (\<exists>profile. analyze sample_loads (Inr (JStr ''not json'')) scenario_problem = Inr profile)
   \<and> analyze sample_loads (Inr (JStr ''{}'')) scenario_problem =
       Inr [(''agent'', JStr ''Complexity Analyzer'')]"
proof -
  have e: "ServiceError ''timeout'' \<noteq> JSONDecodeError"
    by simp
  have first: "multi_agent_analysis sample_loads sample_str exc_str
          (scenario_stubs\<lparr>complexity_reply := Inl (ServiceError ''timeout'')\<rparr>) scenario_request =
        Inl (HTTPException 500
               (''Multi-agent analysis failed: '' @ exc_str (ServiceError ''timeout'')))"
    for exc_str
    using reasoning_failure_propagates [OF e, where loads = sample_loads
        and str_of = sample_str and exc_str = exc_str and request = scenario_request
        and env = "scenario_stubs\<lparr>complexity_reply := Inl (ServiceError ''timeout'')\<rparr>"]
    by simp
  have last: "\<exists>raised. multi_agent_analysis sample_loads sample_str exc_str
          (scenario_stubs\<lparr>decision_reply := Inl (ServiceError ''timeout'')\<rparr>) scenario_request =
        Inl (HTTPException 500 (''Multi-agent analysis failed: '' @ exc_str raised))"
    for exc_str
    using reasoning_failure_propagates [OF e, where loads = sample_loads
        and str_of = sample_str and exc_str = exc_str and request = scenario_request
        and env = "scenario_stubs\<lparr>decision_reply := Inl (ServiceError ''timeout'')\<rparr>",
        THEN conjunct2, THEN conjunct2, THEN conjunct2, THEN conjunct2, THEN conjunct2,
        THEN conjunct1]
    by auto
  note steps = reasoning_failure_propagates [OF e, where loads = sample_loads
      and str_of = sample_str and problem = scenario_problem
      and complexity_analysis = "[]" and cost_analysis = "[]" and feasibility_analysis = "[]"
      and unparsable = "JStr ''not json''" and parsed = "JStr ''{}''" and d = "[]"
      and params = "[(''num_assets'', JInt 50)]" and size_parameter = 50 and cs = "[]"]
  note later = steps [THEN conjunct2, THEN conjunct2, THEN conjunct2, THEN conjunct2,
      THEN conjunct2, THEN conjunct2, THEN conjunct2, THEN conjunct2, THEN conjunct2,
      THEN conjunct2]
  have raised: "analyze sample_loads (Inl (ServiceError ''timeout'')) scenario_problem =
       Inl (ServiceError ''timeout'')"
    by (rule steps [THEN conjunct2, THEN conjunct1])
  have decision: "make_decision sample_loads sample_str (Inl (ServiceError ''timeout''))
       scenario_problem [] [] [] = Inl (ServiceError ''timeout'')"
    by (rule steps [THEN conjunct2, THEN conjunct2, THEN conjunct2, THEN conjunct2,
          THEN conjunct1])
  have fallback: "\<exists>profile. analyze sample_loads (Inr (JStr ''not json'')) scenario_problem =
       Inr profile"
    using later [THEN conjunct1, THEN mp, OF parse_not_json, THEN conjunct2, THEN conjunct2,
        THEN conjunct2, THEN conjunct2, THEN conjunct1] scenario_parameters
    by blast
  have object: "analyze sample_loads (Inr (JStr ''{}'')) scenario_problem =
       Inr [(''agent'', JStr ''Complexity Analyzer'')]"
    using later [THEN conjunct2, THEN mp, OF parse_braces, THEN conjunct1]
    by simp
  note rest = raised decision fallback object
  show ?thesis
    using first last rest by blast
qed

text \<open>
  Claim C8 as stated fails on a reply that is valid JSON of the wrong shape: the reply
  \<^verbatim>\<open>[]\<close> parses, the assignment of the tag raises \<open>TypeError\<close>, no fallback runs, and
  the run fails with that exception.
\<close>

theorem wrong_shape_surfaces_counterexample:
  "parse_reply sample_loads (JStr ''[]'') = Inr (JArr [])
   \<and> analyze sample_loads (Inr (JStr ''[]'')) scenario_problem = Inl TypeError
   \<and> analyze_problem sample_loads sample_str
        (scenario_stubs\<lparr>complexity_reply := Inr (JStr ''[]'')\<rparr>) scenario_problem = Inl TypeError"
proof -
  have step: "analyze sample_loads (Inr (JStr ''[]'')) scenario_problem = Inl TypeError"
    by (simp add: analyze_def analyze_body_def and_then_def parse_brackets)
  show ?thesis
    using step by (simp add: parse_brackets analyze_problem_first_failure)
qed

subsection \<open>The end-to-end scenario\<close>

lemma step_decode_errors:
  assumes "and_then reply (parse_reply loads) = Inl JSONDecodeError"
  shows "analyze loads reply problem = fallback_analysis problem"
    and "estimate_costs loads reply problem complexity_analysis =
           fallback_cost_estimate complexity_analysis"
    and "assess_feasibility loads search_devices reply problem complexity_analysis =
           fallback_feasibility complexity_analysis (get_available_devices search_devices)"
    and "make_decision loads str_of reply problem complexity_analysis cost_analysis
           feasibility_analysis =
           fallback_decision str_of complexity_analysis cost_analysis feasibility_analysis"
  using assms
  by (cases reply;
      simp add: analyze_def analyze_body_def estimate_costs_def estimate_costs_body_def
        assess_feasibility_def assess_feasibility_body_def make_decision_def
        make_decision_body_def Let_def and_then_def)+

lemma round_large_classical: "py_round (8 * (3072 / 1000)) 2 = 2458 / 100"
  by code_simp

lemma round_large_minutes: "py_round (8 * 60 / 3) 2 = 160"
  by code_simp

lemma round_large_quantum: "py_round (8 * 60 / 3 * (75 / 1000)) 2 = 12"
  by code_simp

lemma round_large_savings: "py_round (8 * (3072 / 1000) - 8 * 60 / 3 * (75 / 1000)) 2 = 1258 / 100"
  by code_simp

lemma round_large_percentage:
  "py_round ((8 * (3072 / 1000) - 8 * 60 / 3 * (75 / 1000)) / (8 * (3072 / 1000)) * 100) 1 = 512 / 10"
  by code_simp

lemma fallback_cost_estimate_large:
  assumes "dict_get complexity_analysis ''problem_size'' (JStr ''medium'') = JStr ''large''"
  shows "fallback_cost_estimate complexity_analysis =
     Inr [(''agent'', JStr ''Cost Estimator''),
          (''classical_cost'',
             JObj [(''compute_hours'', JNum 8),
                   (''hourly_rate'', JNum (3072 / 1000)),
                   (''total_cost'', JNum (2458 / 100)),
                   (''instance_type'', JStr ''EC2 large'')]),
          (''quantum_cost'',
             JObj [(''runtime_minutes'', JNum 160),
                   (''per_minute_rate'', JNum (75 / 1000)),
                   (''total_cost'', JNum 12),
                   (''device_type'', JStr ''AWS Braket SV1'')]),
          (''roi_analysis'',
             JObj [(''cost_savings'', JNum (1258 / 100)),
                   (''savings_percentage'', JNum (512 / 10)),
                   (''breakeven_runs'', JInt 1),
                   (''recommendation'', JStr ''quantum'')]),
          (''reasoning'', JStr ''Heuristic cost calculation based on problem size''),
          (''confidence'', JNum (7 / 10))]"
proof -
  have hours: "map_of compute_hours_table ''large'' = Some 8"
    by (simp add: compute_hours_table_def)
  have rate: "map_of pricing_ec2 ''large'' = Some (3072 / 1000)"
    by (simp add: pricing_ec2_def)
  show ?thesis
    unfolding fallback_cost_estimate_value [OF assms hours rate]
      round_large_classical round_large_minutes round_large_quantum round_large_savings
      round_large_percentage
    by simp
qed

lemma scenario_complexity:
  "fallback_analysis scenario_problem =
     Inr [(''agent'', JStr ''Complexity Analyzer''),
          (''complexity_class'', JStr ''NP-Hard''),
          (''time_complexity'', JStr ''O(2^n)''),
          (''space_complexity'', JStr ''O(n)''),
          (''problem_size'', JStr ''large''),
          (''variable_count'', JInt 50),
          (''constraint_count'', JInt 0),
          (''is_combinatorial'', JBool True),
          (''scalability'', JStr ''poor''),
          (''quantum_advantage_potential'', JStr ''medium''),
          (''reasoning'', JStr ''Heuristic analysis based on problem size''),
          (''confidence'', JNum (6 / 10))]"
  using fallback_analysis_value [OF scenario_parameters] by (simp add: dict_get_def)

lemma scenario_run:
  assumes "and_then (complexity_reply env) (parse_reply loads) = Inl JSONDecodeError"
    and "and_then (cost_reply env) (parse_reply loads) = Inl JSONDecodeError"
    and "and_then (feasibility_reply env) (parse_reply loads) = Inl JSONDecodeError"
    and "and_then (decision_reply env) (parse_reply loads) = Inl JSONDecodeError"
  shows "analyze_problem loads str_of env scenario_problem =
     Inr [(''problem'', JObj scenario_problem),
          (''analysis'',
             JObj [(''complexity'',
                      JObj [(''agent'', JStr ''Complexity Analyzer''),
                            (''complexity_class'', JStr ''NP-Hard''),
                            (''time_complexity'', JStr ''O(2^n)''),
                            (''space_complexity'', JStr ''O(n)''),
                            (''problem_size'', JStr ''large''),
                            (''variable_count'', JInt 50),
                            (''constraint_count'', JInt 0),
                            (''is_combinatorial'', JBool True),
                            (''scalability'', JStr ''poor''),
                            (''quantum_advantage_potential'', JStr ''medium''),
                            (''reasoning'', JStr ''Heuristic analysis based on problem size''),
                            (''confidence'', JNum (6 / 10))]),
                   (''cost'',
                      JObj [(''agent'', JStr ''Cost Estimator''),
                            (''classical_cost'',
                               JObj [(''compute_hours'', JNum 8),
                                     (''hourly_rate'', JNum (3072 / 1000)),
                                     (''total_cost'', JNum (2458 / 100)),
                                     (''instance_type'', JStr ''EC2 large'')]),
                            (''quantum_cost'',
                               JObj [(''runtime_minutes'', JNum 160),
                                     (''per_minute_rate'', JNum (75 / 1000)),
                                     (''total_cost'', JNum 12),
                                     (''device_type'', JStr ''AWS Braket SV1'')]),
                            (''roi_analysis'',
                               JObj [(''cost_savings'', JNum (1258 / 100)),
                                     (''savings_percentage'', JNum (512 / 10)),
                                     (''breakeven_runs'', JInt 1),
                                     (''recommendation'', JStr ''quantum'')]),
                            (''reasoning'',
                               JStr ''Heuristic cost calculation based on problem size''),
                            (''confidence'', JNum (7 / 10))]),
                   (''feasibility'',
                      JObj [(''agent'', JStr ''Quantum Feasibility''),
                            (''algorithm_recommendation'', JStr ''QAOA''),
                            (''qubit_requirements'', JInt 50),
                            (''circuit_depth'', JInt 500),
                            (''gate_count'', JInt 2500),
                            (''is_feasible'', JBool False),
                            (''hardware_availability'', JStr ''simulator''),
                            (''limitations'',
                               JArr [JStr ''Limited to 34 qubits on simulator'',
                                     JStr ''No noise modeling in ideal simulation'']),
                            (''advantages'',
                               JArr [JStr ''Potential speedup for combinatorial problems'',
                                     JStr ''Scalable to larger problems'']),
                            (''reasoning'',
                               JStr ''Heuristic assessment based on qubit requirements''),
                            (''confidence'', JNum (7 / 10)),
                            (''available_devices'',
                               JObj (get_available_devices (device_search env)))]),
                   (''decision'',
                      JObj [(''agent'', JStr ''Decision Maker''),
                            (''final_recommendation'', JStr ''classical''),
                            (''confidence'', JNum (1 / 2)),
                            (''primary_reasoning'',
                               JStr (''Based on majority vote from specialist agents: ''
                                     @ str_of (JObj [(''quantum'', JInt 1),
                                                     (''classical'', JInt 1)]))),
                            (''supporting_factors'',
                               JArr [JStr ''Complexity agent: medium quantum potential'',
                                     JStr ''Cost agent: quantum recommended'',
                                     JStr ''Feasibility: Not feasible'']),
                            (''trade_offs'',
                               JObj [(''classical'',
                                        JObj [(''pros'',
                                                 JArr [JStr ''Reliable'',
                                                       JStr ''Well-established'']),
                                              (''cons'', JArr [JStr ''May be slower''])]),
                                     (''quantum'',
                                        JObj [(''pros'', JArr [JStr ''Potential speedup'']),
                                              (''cons'',
                                                 JArr [JStr ''Hardware constraints''])])]),
                            (''actionable_next_steps'',
                               JArr [JStr ''Use classical algorithm'',
                                     JStr ''Run comparative benchmarks'',
                                     JStr ''Monitor performance metrics'']),
                            (''agent_consensus'',
                               JObj [(''votes'',
                                        JObj [(''quantum'', JInt 1), (''classical'', JInt 1)]),
                                     (''agreement_score'', JNum (1 / 2)),
                                     (''majority'', JStr ''classical'')])])]),
          (''metadata'',
             JObj [(''total_analysis_time'', JNum (py_round (finished env - started env) 2)),
                   (''agents_involved'',
                      JArr [JStr ''Complexity Analyzer'', JStr ''Cost Estimator'',
                            JStr ''Quantum Feasibility'', JStr ''Decision Maker'']),
                   (''workflow'', JStr ''multi-agent-orchestration'')])]"
proof -
  let ?c = "[(''agent'', JStr ''Complexity Analyzer''),
          (''complexity_class'', JStr ''NP-Hard''),
          (''time_complexity'', JStr ''O(2^n)''),
          (''space_complexity'', JStr ''O(n)''),
          (''problem_size'', JStr ''large''),
          (''variable_count'', JInt 50),
          (''constraint_count'', JInt 0),
          (''is_combinatorial'', JBool True),
          (''scalability'', JStr ''poor''),
          (''quantum_advantage_potential'', JStr ''medium''),
          (''reasoning'', JStr ''Heuristic analysis based on problem size''),
          (''confidence'', JNum (6 / 10))]"
  let ?k = "[(''agent'', JStr ''Cost Estimator''),
          (''classical_cost'',
             JObj [(''compute_hours'', JNum 8),
                   (''hourly_rate'', JNum (3072 / 1000)),
                   (''total_cost'', JNum (2458 / 100)),
                   (''instance_type'', JStr ''EC2 large'')]),
          (''quantum_cost'',
             JObj [(''runtime_minutes'', JNum 160),
                   (''per_minute_rate'', JNum (75 / 1000)),
                   (''total_cost'', JNum 12),
                   (''device_type'', JStr ''AWS Braket SV1'')]),
          (''roi_analysis'',
             JObj [(''cost_savings'', JNum (1258 / 100)),
                   (''savings_percentage'', JNum (512 / 10)),
                   (''breakeven_runs'', JInt 1),
                   (''recommendation'', JStr ''quantum'')]),
          (''reasoning'', JStr ''Heuristic cost calculation based on problem size''),
          (''confidence'', JNum (7 / 10))]"
  let ?f = "[(''agent'', JStr ''Quantum Feasibility''),
          (''algorithm_recommendation'', JStr ''QAOA''),
          (''qubit_requirements'', JInt 50),
          (''circuit_depth'', JInt (50 * 10)),
          (''gate_count'', JInt (50 * 50)),
          (''is_feasible'', JBool (50 \<le> (34 :: int))),
          (''hardware_availability'', JStr ''simulator''),
          (''limitations'',
             JArr [JStr ''Limited to 34 qubits on simulator'',
                   JStr ''No noise modeling in ideal simulation'']),
          (''advantages'',
             JArr [JStr ''Potential speedup for combinatorial problems'',
                   JStr ''Scalable to larger problems'']),
          (''reasoning'', JStr ''Heuristic assessment based on qubit requirements''),
          (''confidence'', JNum (7 / 10)),
          (''available_devices'', JObj (get_available_devices (device_search env)))]"
  let ?d = "[(''agent'', JStr ''Decision Maker''),
          (''final_recommendation'', JStr ''classical''),
          (''confidence'', JNum (1 / 2)),
          (''primary_reasoning'',
             JStr (''Based on majority vote from specialist agents: ''
                   @ str_of (JObj [(''quantum'', JInt 1), (''classical'', JInt 1)]))),
          (''supporting_factors'',
             JArr [JStr ''Complexity agent: medium quantum potential'',
                   JStr ''Cost agent: quantum recommended'',
                   JStr ''Feasibility: Not feasible'']),
          (''trade_offs'',
             JObj [(''classical'',
                      JObj [(''pros'', JArr [JStr ''Reliable'', JStr ''Well-established'']),
                            (''cons'', JArr [JStr ''May be slower''])]),
                   (''quantum'',
                      JObj [(''pros'', JArr [JStr ''Potential speedup'']),
                            (''cons'', JArr [JStr ''Hardware constraints''])])]),
          (''actionable_next_steps'',
             JArr [JStr ''Use classical algorithm'',
                   JStr ''Run comparative benchmarks'',
                   JStr ''Monitor performance metrics'']),
          (''agent_consensus'',
             JObj [(''votes'', JObj [(''quantum'', JInt 1), (''classical'', JInt 1)]),
                   (''agreement_score'', JNum (1 / 2)),
                   (''majority'', JStr ''classical'')])]"
  have c: "analyze loads (complexity_reply env) scenario_problem = Inr ?c"
    by (simp add: step_decode_errors(1) [OF assms(1)] scenario_complexity)
  have size: "dict_get ?c ''problem_size'' (JStr ''medium'') = JStr ''large''"
    and count: "dict_get ?c ''variable_count'' (JInt 10) = JInt 50"
    by (simp_all add: dict_get_def)
  have shown1: "format_percent (dict_get ?c ''confidence'' (JInt 0)) = Inr ()"
    by (simp add: dict_get_def)
  have k: "estimate_costs loads (cost_reply env) scenario_problem ?c = Inr ?k"
    unfolding step_decode_errors(2) [OF assms(2)] by (rule fallback_cost_estimate_large [OF size])
  have shown2: "attr_get (dict_get ?k ''roi_analysis'' (JObj [])) ''recommendation'' JNull
      = Inr (JStr ''quantum'')"
    by (simp add: dict_get_def)
  have f: "assess_feasibility loads (device_search env) (feasibility_reply env) scenario_problem ?c
      = Inr ?f"
    unfolding step_decode_errors(3) [OF assms(3)] by (rule fallback_feasibility_int [OF count])
  have d: "make_decision loads str_of (decision_reply env) scenario_problem ?c ?k ?f = Inr ?d"
    unfolding step_decode_errors(4) [OF assms(4)]
    by (simp add: fallback_decision_def calculate_consensus_def Let_def and_then_def
        dict_item_def dict_get_def format_value_def)
  have shown3: "py_upper (dict_get ?d ''final_recommendation'' JNull) = Inr ()"
    and shown4: "format_percent (dict_get ?d ''confidence'' (JInt 0)) = Inr ()"
    by (simp_all add: dict_get_def)
  have "analyze_problem loads str_of env scenario_problem =
     Inr [(''problem'', JObj scenario_problem),
          (''analysis'',
             JObj [(''complexity'', JObj ?c), (''cost'', JObj ?k),
                   (''feasibility'', JObj ?f), (''decision'', JObj ?d)]),
          (''metadata'',
             JObj [(''total_analysis_time'', JNum (py_round (finished env - started env) 2)),
                   (''agents_involved'',
                      JArr [JStr ''Complexity Analyzer'', JStr ''Cost Estimator'',
                            JStr ''Quantum Feasibility'', JStr ''Decision Maker'']),
                   (''workflow'', JStr ''multi-agent-orchestration'')])]"
    unfolding analyze_problem_def and_then_def c sum.case shown1 k shown2 f d shown3 shown4
    by (rule refl)
  then show ?thesis
    by simp
qed

text \<open>
  Claim C5, as amended. On the scenario problem, when the reply to every reasoning call
  fails to parse as JSON, the run returns a report whose complexity fallback has
  \<open>variable_count\<close> 50 and \<open>problem_size\<close> \<open>large\<close>, whose cost fallback has
  \<open>compute_hours\<close> 8.0 and recommends \<open>quantum\<close>, whose feasibility fallback has
  \<open>qubit_requirements\<close> 50 and \<open>is_feasible\<close> false, and whose fallback decision has the
  votes quantum 1 (from the cost recommendation) and classical 1 (infeasible), the
  \<open>agreement_score\<close> 0.5 and, by the tie, the majority \<open>classical\<close>.
\<close>

theorem scenario_fallbacks:
  assumes "and_then (complexity_reply env) (parse_reply loads) = Inl JSONDecodeError"
    and "and_then (cost_reply env) (parse_reply loads) = Inl JSONDecodeError"
    and "and_then (feasibility_reply env) (parse_reply loads) = Inl JSONDecodeError"
    and "and_then (decision_reply env) (parse_reply loads) = Inl JSONDecodeError"
  shows
    "(let field = (\<lambda>path. and_then (analyze_problem loads str_of env scenario_problem)
                            (\<lambda>report. at_path (JObj report) (''analysis'' # path)))
      in field [''complexity'', ''variable_count''] = Inr (JInt 50)
       \<and> field [''complexity'', ''problem_size''] = Inr (JStr ''large'')
       \<and> field [''complexity'', ''quantum_advantage_potential''] = Inr (JStr ''medium'')
       \<and> field [''cost'', ''classical_cost'', ''compute_hours''] = Inr (JNum 8)
       \<and> field [''cost'', ''roi_analysis'', ''recommendation''] = Inr (JStr ''quantum'')
       \<and> field [''feasibility'', ''qubit_requirements''] = Inr (JInt 50)
       \<and> field [''feasibility'', ''is_feasible''] = Inr (JBool False)
       \<and> field [''decision'', ''agent_consensus'', ''votes''] =
           Inr (JObj [(''quantum'', JInt 1), (''classical'', JInt 1)])
       \<and> field [''decision'', ''agent_consensus'', ''agreement_score''] = Inr (JNum (1 / 2))
       \<and> field [''decision'', ''agent_consensus'', ''majority''] = Inr (JStr ''classical'')
       \<and> field [''decision'', ''final_recommendation''] = Inr (JStr ''classical''))"
  unfolding scenario_run [OF assms] Let_def
  by (simp add: and_then_def dict_item_def)

lemma scenario_stubs_unparsable:
  "and_then (complexity_reply scenario_stubs) (parse_reply sample_loads) = Inl JSONDecodeError"
  "and_then (cost_reply scenario_stubs) (parse_reply sample_loads) = Inl JSONDecodeError"
  "and_then (feasibility_reply scenario_stubs) (parse_reply sample_loads) = Inl JSONDecodeError"
  "and_then (decision_reply scenario_stubs) (parse_reply sample_loads) = Inl JSONDecodeError"
  by (simp_all add: scenario_stubs_def and_then_def parse_not_json)

theorem scenario_fallbacks_witness:
  "and_then (analyze_problem sample_loads sample_str scenario_stubs scenario_problem)
       (\<lambda>report. at_path (JObj report) [''analysis'', ''complexity'', ''problem_size'']) =
     Inr (JStr ''large'')
   \<and> and_then (analyze_problem sample_loads sample_str scenario_stubs scenario_problem)
       (\<lambda>report. at_path (JObj report) [''analysis'', ''feasibility'', ''is_feasible'']) =
     Inr (JBool False)
   \<and> and_then (analyze_problem sample_loads sample_str scenario_stubs scenario_problem)
       (\<lambda>report. at_path (JObj report) [''analysis'', ''decision'', ''agent_consensus'', ''majority'']) =
     Inr (JStr ''classical'')
   \<and> and_then (analyze_problem sample_loads sample_str scenario_stubs scenario_problem)
       (\<lambda>report. at_path (JObj report)
                   [''analysis'', ''decision'', ''agent_consensus'', ''agreement_score'']) =
     Inr (JNum (1 / 2))"
  using scenario_fallbacks [OF scenario_stubs_unparsable, of sample_str]
  by (simp add: Let_def)

text \<open>
  Claim C5 as stated fails on the votes: in the scenario the classical side holds 1 vote,
  not 2, since the cost fallback recommends \<open>quantum\<close> for \<open>large\<close>.
\<close>

theorem scenario_votes_counterexample:
  "and_then (analyze_problem sample_loads sample_str scenario_stubs scenario_problem)
       (\<lambda>report. at_path (JObj report)
                   [''analysis'', ''decision'', ''agent_consensus'', ''votes'', ''classical'']) =
     Inr (JInt 1)
   \<and> and_then (analyze_problem sample_loads sample_str scenario_stubs scenario_problem)
       (\<lambda>report. at_path (JObj report)
                   [''analysis'', ''decision'', ''agent_consensus'', ''votes'', ''quantum'']) =
     Inr (JInt 1)"
  unfolding scenario_run [OF scenario_stubs_unparsable]
  by (simp add: and_then_def dict_item_def)

subsection \<open>Replies that omit fields\<close>

lemma step_objects:
  assumes "and_then reply (parse_reply loads) = Inr (JObj d)"
  shows "analyze loads reply problem = Inr (AList.update ''agent'' (JStr ''Complexity Analyzer'') d)"
    and "estimate_costs loads reply problem complexity_analysis =
           Inr (AList.update ''agent'' (JStr ''Cost Estimator'') d)"
    and "assess_feasibility loads search_devices reply problem complexity_analysis =
           Inr (AList.update ''available_devices'' (JObj (get_available_devices search_devices))
                  (AList.update ''agent'' (JStr ''Quantum Feasibility'') d))"
    and "calculate_consensus complexity_analysis cost_analysis feasibility_analysis = Inr consensus
         \<Longrightarrow> make_decision loads str_of reply problem complexity_analysis cost_analysis
               feasibility_analysis =
             Inr (AList.update ''agent_consensus'' (JObj consensus)
                    (AList.update ''agent'' (JStr ''Decision Maker'') d))"
  using assms
  by (cases reply;
      simp add: analyze_def analyze_body_def estimate_costs_def estimate_costs_body_def
        assess_feasibility_def assess_feasibility_body_def make_decision_def
        make_decision_body_def Let_def and_then_def)+









lemma missing_recommendation_raises:
  assumes "and_then (complexity_reply env) (parse_reply loads) = Inr (JObj [])"
    and "and_then (cost_reply env) (parse_reply loads) = Inr (JObj [])"
    and "and_then (feasibility_reply env) (parse_reply loads) = Inr (JObj [])"
    and "and_then (decision_reply env) (parse_reply loads) = Inr (JObj [])"
  shows "analyze_problem loads str_of env problem = Inl AttributeError"
proof -
  let ?c = "AList.update ''agent'' (JStr ''Complexity Analyzer'') []"
  let ?k = "AList.update ''agent'' (JStr ''Cost Estimator'') []"
  let ?f = "AList.update ''available_devices'' (JObj (get_available_devices (device_search env)))
              (AList.update ''agent'' (JStr ''Quantum Feasibility'') [])"
  have roi: "dict_get ?k ''roi_analysis'' (JObj []) = JObj []"
    by (simp add: dict_get_def)
  obtain consensus where consensus: "calculate_consensus ?c ?k ?f = Inr consensus"
    using calculate_consensus_value [OF roi, of ?c ?f] by (simp add: Let_def)
  show ?thesis
    unfolding analyze_problem_def and_then_def step_objects(1) [OF assms(1)] sum.case
      step_objects(2) [OF assms(2)] step_objects(3) [OF assms(3)]
      step_objects(4) [OF assms(4) consensus]
    by (simp add: dict_get_def)
qed

subsection \<open>Fenced replies\<close>

lemma split_py_absent:
  assumes "\<not> sublist sep s"
  shows "split_py sep s = [s]"
  using assms
proof (induction s)
  case Nil
  then show ?case by simp
next
  case (Cons c cs)
  have "\<not> prefix sep (c # cs)"
    using Cons.prems prefix_imp_sublist by blast
  moreover have "\<not> sublist sep cs"
    using Cons.prems by (meson sublist_Cons_right)
  ultimately show ?case
    using Cons.IH by simp
qed

lemma fence_json_append: "fence_json = fence @ ''json''"
  by (simp add: fence_def fence_json_def)

lemma fence_json_prefix: "prefix fence_json s \<Longrightarrow> prefix fence s"
  unfolding fence_json_append by (rule append_prefixD)

lemma json_not_before_fence:
  assumes "\<not> prefix ''json'' p"
  shows "\<not> prefix ''json'' (p @ fence)"
proof
  assume "prefix ''json'' (p @ fence)"
  then obtain us where us: "''json'' = p @ us" "prefix us fence"
    using assms by (auto simp: prefix_append)
  have "us \<noteq> []"
    using us(1) assms by auto
  then obtain u rest where cons: "us = u # rest"
    by (cases us) auto
  then have "u = CHR 0x60"
    using us(2) by (simp add: fence_def)
  moreover have "set (p @ us) = set ''json''"
    by (rule arg_cong [OF us(1) [symmetric]])
  then have "u \<in> set ''json''"
    using cons by auto
  ultimately show False
    by simp
qed

lemma fence_not_prefix:
  assumes "\<not> sublist fence (c # cs)" and "\<not> suffix ''`'' (c # cs)"
  shows "\<not> prefix fence (c # cs @ fence)"
proof
  assume p: "prefix fence (c # cs @ fence)"
  show False
  proof (cases cs)
    case Nil
    then show ?thesis
      using p assms(2) by (simp add: fence_def suffix_def)
  next
    case (Cons d ds)
    show ?thesis
    proof (cases ds)
      case Nil
      then show ?thesis
        using p assms(2) Cons by (auto simp: fence_def suffix_def)
    next
      case (Cons e es)
      then have "prefix fence (c # cs)"
        using p \<open>cs = d # ds\<close> by (auto simp: fence_def)
      then show ?thesis
        using assms(1) prefix_imp_sublist by blast
    qed
  qed
qed

lemma split_py_closing_fence:
  assumes "\<not> sublist fence p" and "\<not> suffix ''`'' p"
  shows "split_py fence (p @ fence) = [p, []]"
  using assms
proof (induction p)
  case Nil
  then show ?case by (simp add: fence_def)
next
  case (Cons c cs)
  have "\<not> prefix fence (c # cs @ fence)"
    using Cons.prems by (rule fence_not_prefix)
  moreover have "\<not> sublist fence cs"
    using Cons.prems(1) by (meson sublist_Cons_right)
  moreover have "\<not> suffix ''`'' cs"
    using Cons.prems(2) by (meson suffix_ConsI)
  ultimately show ?case
    using Cons.IH by simp
qed

lemma split_py_json_absent:
  assumes "\<not> sublist fence p" and "\<not> suffix ''`'' p"
  shows "split_py fence_json (p @ fence) = [p @ fence]"
  using assms
proof (induction p)
  case Nil
  then show ?case by (simp add: fence_def fence_json_def)
next
  case (Cons c cs)
  have "\<not> prefix fence (c # cs @ fence)"
    using Cons.prems by (rule fence_not_prefix)
  then have "\<not> prefix fence_json (c # cs @ fence)"
    using fence_json_prefix by blast
  moreover have "\<not> sublist fence cs"
    using Cons.prems(1) by (meson sublist_Cons_right)
  moreover have "\<not> suffix ''`'' cs"
    using Cons.prems(2) by (meson suffix_ConsI)
  ultimately show ?case
    using Cons.IH by simp
qed

lemma strip_fenced:
  "strip (fence_json @ p @ fence) = fence_json @ p @ fence"
  "strip (fence @ p @ fence) = fence @ p @ fence"
  by (simp_all add: strip_def is_space_def fence_def fence_json_def)

lemma strip_fences_json:
  assumes "\<not> sublist fence p" and "\<not> suffix ''`'' p"
  shows "strip_fences (fence_json @ p @ fence) = Some p"
proof -
  have "split_py fence_json (fence_json @ p @ fence) = [] # split_py fence_json (p @ fence)"
    by (simp add: fence_json_def)
  then show ?thesis
    by (simp add: strip_fences_def second_then_first_def split_py_json_absent [OF assms]
        split_py_closing_fence [OF assms])
qed

lemma strip_fences_bare:
  assumes "\<not> sublist fence p" and "\<not> suffix ''`'' p" and "\<not> prefix ''json'' p"
  shows "strip_fences (fence @ p @ fence) = Some p"
proof -
  have "split_py fence (fence @ p @ fence) = [] # split_py fence (p @ fence)"
    by (simp add: fence_def)
  moreover have "\<not> prefix fence_json (fence @ p @ fence)"
    using json_not_before_fence [OF assms(3)] by (simp add: fence_json_append)
  moreover have "prefix fence (fence @ p @ fence)"
    by simp
  ultimately show ?thesis
    by (simp add: strip_fences_def second_then_first_def split_py_closing_fence [OF assms(1,2)]
        split_py_absent [OF assms(1)])
qed

lemma strip_fences_unfenced:
  assumes "\<not> prefix fence s"
  shows "strip_fences s = Some s"
proof -
  have "\<not> prefix fence_json s"
    using assms fence_json_prefix by blast
  then show ?thesis
    using assms by (simp add: strip_fences_def)
qed

lemma strip_sublist: "sublist (strip s) s"
proof -
  have "suffix (dropWhile is_space (rev (dropWhile is_space s))) (rev (dropWhile is_space s))"
    by (rule suffix_dropWhile)
  then have "prefix (strip s) (dropWhile is_space s)"
    by (simp add: strip_def suffix_to_prefix)
  then have "sublist (strip s) (dropWhile is_space s)"
    by (rule prefix_imp_sublist)
  moreover have "sublist (dropWhile is_space s) s"
    using suffix_dropWhile by (rule suffix_imp_sublist)
  ultimately show ?thesis
    by (rule sublist_order.order_trans)
qed

lemma strip_fences_stripped:
  assumes "\<not> sublist fence p"
  shows "strip_fences (strip p) = Some (strip p)"
proof -
  have "\<not> sublist fence (strip p)"
    using assms strip_sublist sublist_order.order_trans by blast
  then have "\<not> prefix fence (strip p)"
    using prefix_imp_sublist by blast
  then show ?thesis
    by (rule strip_fences_unfenced)
qed

lemma steps_on_equal_parse:
  assumes "parse_reply loads a = parse_reply loads b"
  shows "analyze loads (Inr a) problem = analyze loads (Inr b) problem"
    and "estimate_costs loads (Inr a) problem complexity_analysis =
         estimate_costs loads (Inr b) problem complexity_analysis"
    and "assess_feasibility loads search_devices (Inr a) problem complexity_analysis =
         assess_feasibility loads search_devices (Inr b) problem complexity_analysis"
    and "make_decision loads str_of (Inr a) problem complexity_analysis cost_analysis
           feasibility_analysis =
         make_decision loads str_of (Inr b) problem complexity_analysis cost_analysis
           feasibility_analysis"
  using assms
  by (simp_all add: analyze_def analyze_body_def estimate_costs_def estimate_costs_body_def
      assess_feasibility_def assess_feasibility_body_def make_decision_def
      make_decision_body_def and_then_def)

text \<open>
  Claim C9, as amended. For every payload \<open>p\<close> that contains no fence marker and does
  not end with a backtick, the extraction is a round trip with fencing: from the reply
  \<open>fence_json @ p @ fence\<close> it yields \<open>p\<close>, and from \<open>fence @ p @ fence\<close> it yields \<open>p\<close>
  when \<open>p\<close> does not start with \<open>json\<close>. Parsing the fenced reply is \<^verbatim>\<open>json.loads\<close> of \<open>p\<close>
  and parsing the bare payload is \<^verbatim>\<open>json.loads\<close> of the stripped \<open>p\<close>, so every step
  returns the same on both when \<open>p\<close> has no white space around it. A reply that, once
  stripped, does not start with a fence is the payload as a whole.
\<close>

theorem fenced_payload_round_trip:
  assumes "\<not> sublist fence p" and "\<not> suffix ''`'' p"
  shows "strip_fences (strip (fence_json @ p @ fence)) = Some p
     \<and> (\<not> prefix ''json'' p \<longrightarrow> strip_fences (strip (fence @ p @ fence)) = Some p)
     \<and> parse_reply loads (JStr (fence_json @ p @ fence)) =
         (case loads p of None \<Rightarrow> Inl JSONDecodeError | Some v \<Rightarrow> Inr v)
     \<and> (\<not> prefix ''json'' p \<longrightarrow>
         parse_reply loads (JStr (fence @ p @ fence)) =
           (case loads p of None \<Rightarrow> Inl JSONDecodeError | Some v \<Rightarrow> Inr v))
     \<and> parse_reply loads (JStr p) =
         (case loads (strip p) of None \<Rightarrow> Inl JSONDecodeError | Some v \<Rightarrow> Inr v)
     \<and> (strip p = p \<longrightarrow>
         analyze loads (Inr (JStr (fence_json @ p @ fence))) problem =
           analyze loads (Inr (JStr p)) problem
         \<and> estimate_costs loads (Inr (JStr (fence_json @ p @ fence))) problem
             complexity_analysis =
           estimate_costs loads (Inr (JStr p)) problem complexity_analysis
         \<and> assess_feasibility loads search_devices (Inr (JStr (fence_json @ p @ fence))) problem
             complexity_analysis =
           assess_feasibility loads search_devices (Inr (JStr p)) problem complexity_analysis
         \<and> make_decision loads str_of (Inr (JStr (fence_json @ p @ fence))) problem
             complexity_analysis cost_analysis feasibility_analysis =
           make_decision loads str_of (Inr (JStr p)) problem complexity_analysis cost_analysis
             feasibility_analysis)
     \<and> (\<not> prefix fence (strip r) \<longrightarrow> strip_fences (strip r) = Some (strip r))"
proof -
  have tagged: "strip_fences (strip (fence_json @ p @ fence)) = Some p"
    by (simp add: strip_fenced strip_fences_json [OF assms])
  have bare: "strip_fences (strip (fence @ p @ fence)) = Some p" if "\<not> prefix ''json'' p"
    by (simp add: strip_fenced strip_fences_bare [OF assms that])
  have plain: "strip_fences (strip p) = Some (strip p)"
    using assms(1) by (rule strip_fences_stripped)
  have parse_tagged: "parse_reply loads (JStr (fence_json @ p @ fence)) =
         (case loads p of None \<Rightarrow> Inl JSONDecodeError | Some v \<Rightarrow> Inr v)"
    by (simp add: parse_reply_def tagged)
  have parse_bare: "parse_reply loads (JStr (fence @ p @ fence)) =
         (case loads p of None \<Rightarrow> Inl JSONDecodeError | Some v \<Rightarrow> Inr v)"
    if "\<not> prefix ''json'' p"
    by (simp add: parse_reply_def bare [OF that])
  have parse_plain: "parse_reply loads (JStr p) =
         (case loads (strip p) of None \<Rightarrow> Inl JSONDecodeError | Some v \<Rightarrow> Inr v)"
    by (simp add: parse_reply_def plain)
  have same: "parse_reply loads (JStr (fence_json @ p @ fence)) = parse_reply loads (JStr p)"
    if "strip p = p"
    using that by (simp add: parse_tagged parse_plain)
  have whole: "strip_fences (strip r) = Some (strip r)" if "\<not> prefix fence (strip r)"
    using that by (rule strip_fences_unfenced)
  show ?thesis
    apply (intro conjI impI)
    using tagged apply blast
    using bare apply blast
    using parse_tagged apply blast
    using parse_bare apply blast
    using parse_plain apply blast
    using steps_on_equal_parse(1) [OF same] apply blast
    using steps_on_equal_parse(2) [OF same] apply blast
    using steps_on_equal_parse(3) [OF same] apply blast
    using steps_on_equal_parse(4) [OF same] apply blast
    using whole apply blast
    done
qed

lemma braces_unfenced:
  "\<not> sublist fence ''{}''"
  "\<not> suffix ''`'' ''{}''"
  "\<not> prefix ''json'' ''{}''"
  by (simp_all add: fence_def sublist_Cons_right suffix_Cons)

theorem fenced_payload_round_trip_witness:
  "strip_fences (strip (fence_json @ ''{}'' @ fence)) = Some ''{}''
   \<and> strip_fences (strip (fence @ ''{}'' @ fence)) = Some ''{}''
   \<and> parse_reply sample_loads (JStr (fence_json @ ''{}'' @ fence)) = Inr (JObj [])
   \<and> analyze sample_loads (Inr (JStr (fence_json @ ''{}'' @ fence))) scenario_problem =
       analyze sample_loads (Inr (JStr ''{}'')) scenario_problem"
  using fenced_payload_round_trip [OF braces_unfenced(1,2), of sample_loads scenario_problem]
  by (simp add: braces_unfenced strip_braces sample_loads_def)

text \<open>
  Claim C9 as stated fails on a payload that holds no fence marker but ends with a
  backtick, whose last characters the closing fence takes over, and, with the bare
  fence, on a payload that starts with \<open>json\<close>, which is read as the tag of the fence.
\<close>

theorem fenced_payload_counterexample:
  "\<not> sublist fence ''`''
   \<and> strip_fences (strip (fence_json @ ''`'' @ fence)) = Some []
   \<and> \<not> sublist fence ''json{}''
   \<and> strip_fences (strip (fence @ ''json{}'' @ fence)) = Some ''{}''"
  by (simp add: strip_def is_space_def strip_fences_def second_then_first_def fence_def
      fence_json_def sublist_Cons_right)

end
